theory Spec2Isabelle
  imports Main "HOL-Library.AList"
begin

section \<open>Python values, dictionaries and exceptions\<close>

text \<open>
  The metadata module of the SDK (\<^verbatim>\<open>google/cloud/aiplatform/metadata/metadata.py\<close>)
  handles parameter and metric dictionaries whose values are Python scalars. A float is
  never computed with: it is only tested by \<^verbatim>\<open>isinstance\<close> and carried along, so it is
  represented by its \<^verbatim>\<open>repr\<close>, which identifies a Python float.
\<close>

datatype pyval =
    PyNone
  | PyBool bool
  | PyInt int
  | PyFloat string
  | PyStr string

text \<open>\<^verbatim>\<open>isinstance(value, int)\<close>: \<^verbatim>\<open>bool\<close> is a subclass of \<^verbatim>\<open>int\<close>.\<close>

fun isinstance_int :: "pyval \<Rightarrow> bool" where
  "isinstance_int (PyBool b) = True"
| "isinstance_int (PyInt i) = True"
| "isinstance_int v = False"

fun isinstance_float :: "pyval \<Rightarrow> bool" where
  "isinstance_float (PyFloat f) = True"
| "isinstance_float v = False"

text \<open>Decimal digits of a natural number, for \<^verbatim>\<open>str\<close> of an \<^verbatim>\<open>int\<close>.\<close>

definition digit_char :: "nat \<Rightarrow> char" where
  "digit_char d = char_of (48 + d)"

fun str_nat :: "nat \<Rightarrow> string" where
  "str_nat n = (if n < 10 then [digit_char n] else str_nat (n div 10) @ [digit_char (n mod 10)])"

definition str_int :: "int \<Rightarrow> string" where
  "str_int i = (if i < 0 then CHR ''-'' # str_nat (nat (- i)) else str_nat (nat i))"

text \<open>\<^verbatim>\<open>str(value)\<close>, as an f-string renders \<^verbatim>\<open>{value}\<close>.\<close>

fun py_str :: "pyval \<Rightarrow> string" where
  "py_str PyNone = ''None''"
| "py_str (PyBool b) = (if b then ''True'' else ''False'')"
| "py_str (PyInt i) = str_int i"
| "py_str (PyFloat f) = f"
| "py_str (PyStr s) = s"

text \<open>\<^verbatim>\<open>str(type(value))\<close>, as an f-string renders \<^verbatim>\<open>{type(value)}\<close>.\<close>

fun py_type_str :: "pyval \<Rightarrow> string" where
  "py_type_str PyNone = ''<class 'NoneType'>''"
| "py_type_str (PyBool b) = ''<class 'bool'>''"
| "py_type_str (PyInt i) = ''<class 'int'>''"
| "py_type_str (PyFloat f) = ''<class 'float'>''"
| "py_type_str (PyStr s) = ''<class 'str'>''"

text \<open>
  A \<^verbatim>\<open>dict\<close> keeps its keys in insertion order: it is an association list with distinct
  keys. \<^verbatim>\<open>d[k] = v\<close> overwrites the value of a key that is present, in place, and appends
  a new key at the end, which is \<^const>\<open>AList.update\<close>.
\<close>

type_synonym 'v pydict = "(string \<times> 'v) list"

definition is_dict :: "'v pydict \<Rightarrow> bool" where
  "is_dict d = distinct (map fst d)"

definition setitem :: "string \<Rightarrow> 'v \<Rightarrow> 'v pydict \<Rightarrow> 'v pydict" where
  "setitem k v d = AList.update k v d"

text \<open>\<^verbatim>\<open>d.update(other)\<close> stores the items of \<^verbatim>\<open>other\<close> in their order.\<close>

definition dict_update :: "'v pydict \<Rightarrow> 'v pydict \<Rightarrow> 'v pydict" where
  "dict_update d other = fold (\<lambda>(k, v) acc. setitem k v acc) other d"

text \<open>\<^verbatim>\<open>key.startswith(prefix)\<close> and the slice \<^verbatim>\<open>key[len(prefix):]\<close>.\<close>

definition startswith :: "string \<Rightarrow> string \<Rightarrow> bool" where
  "startswith key p = (take (length p) key = p)"

text \<open>
  The exceptions the module raises or lets through. \<^verbatim>\<open>NotFound\<close> is
  \<^verbatim>\<open>google.api_core.exceptions.NotFound\<close>; \<open>RemoteError\<close> stands for any other exception
  a call into the metadata service raises.
\<close>

datatype exn =
    ValueError string
  | TypeError string
  | AttributeError string
  | ImportError string
  | NotFound string
  | RemoteError string

section \<open>Static helpers of \<^verbatim>\<open>_MetadataService\<close>\<close>

text \<open>
  \<^verbatim>\<open>_validate_metrics_value_type\<close>: the loop over \<^verbatim>\<open>metrics.items()\<close> raises at the first
  value that is neither an \<^verbatim>\<open>int\<close> nor a \<^verbatim>\<open>float\<close>.
\<close>

definition metrics_type_error :: "string \<Rightarrow> pyval \<Rightarrow> exn" where
  "metrics_type_error key v =
     TypeError (''metrics contain unsupported value types. key: '' @ key @ ''; value: '' @ py_str v
                @ ''; type: '' @ py_type_str v)"

fun validate_metrics_value_type :: "pyval pydict \<Rightarrow> exn + unit" where
  "validate_metrics_value_type [] = Inr ()"
| "validate_metrics_value_type ((key, v) # metrics) =
     (if isinstance_int v \<or> isinstance_float v then validate_metrics_value_type metrics
      else Inl (metrics_type_error key v))"

text \<open>
  \<^verbatim>\<open>_execution_to_column_named_metadata\<close>: \<^verbatim>\<open>filter_prefix\<close> is an optional string, and
  \<^verbatim>\<open>if filter_prefix and ...\<close> is false for \<^verbatim>\<open>None\<close> and for the empty string.
\<close>

definition column_key :: "string \<Rightarrow> string option \<Rightarrow> string \<Rightarrow> string" where
  "column_key metadata_type filter_prefix key =
     (let key' = (case filter_prefix of
                    None \<Rightarrow> key
                  | Some p \<Rightarrow> if p \<noteq> [] \<and> startswith key p then drop (length p) key else key)
      in metadata_type @ ''.'' @ key')"

definition execution_to_column_named_metadata ::
    "string \<Rightarrow> 'v pydict \<Rightarrow> string option \<Rightarrow> 'v pydict" where
  "execution_to_column_named_metadata metadata_type metadata filter_prefix =
     fold (\<lambda>(key, v) column_key_to_value.
             setitem (column_key metadata_type filter_prefix key) v column_key_to_value)
          metadata []"

section \<open>Sessions, remote calls and exceptions\<close>

text \<open>
  Both trackers are module-level objects that talk to the metadata service. The service
  is the component \<open>world\<close> of the process state, of any type \<open>'w\<close>: each call into it
  takes the service state and returns a result or an exception, and the next state. What
  the module logs through \<^verbatim>\<open>_LOGGER\<close> is collected in \<open>warnings\<close>.
\<close>

record 'w session =
  world :: 'w
  warnings :: "string list"

type_synonym ('s, 'a) action = "'s \<Rightarrow> (exn + 'a) \<times> 's"

definition return :: "'a \<Rightarrow> ('s, 'a) action" where
  "return a s = (Inr a, s)"

definition raise :: "exn \<Rightarrow> ('s, 'a) action" where
  "raise e s = (Inl e, s)"

text \<open>Sequencing: an exception of the first action propagates, with the state it left.\<close>

definition bind :: "('s, 'a) action \<Rightarrow> ('a \<Rightarrow> ('s, 'b) action) \<Rightarrow> ('s, 'b) action" where
  "bind m f s = (case m s of (Inl e, s') \<Rightarrow> (Inl e, s') | (Inr a, s') \<Rightarrow> f a s')"

text \<open>A plain assignment to fields of the tracker.\<close>

definition modify :: "('s \<Rightarrow> 's) \<Rightarrow> ('s, unit) action" where
  "modify f s = (Inr (), f s)"

text \<open>A call into the service, run on the \<open>world\<close> of the session.\<close>

definition remote ::
    "('w, 'a) action \<Rightarrow> (('w, 'z) session_scheme, 'a) action" where
  "remote c s = (case c (world s) of (r, w') \<Rightarrow> (r, s\<lparr>world := w'\<rparr>))"

text \<open>Truthiness of an optional string: \<^verbatim>\<open>None\<close> and \<^verbatim>\<open>""\<close> are false.\<close>

fun truthy :: "string option \<Rightarrow> bool" where
  "truthy None = False"
| "truthy (Some s) = (s \<noteq> [])"

section \<open>The legacy tracker \<^verbatim>\<open>_MetadataService\<close>\<close>

text \<open>
  What the client object of a Context, Execution or Artifact exposes to this module. The
  fields are read right after the object is fetched. \<^verbatim>\<open>gapic.Execution.State\<close> is the
  state of an execution.
\<close>

datatype execution_state = STATE_UNSPECIFIED | NEW | RUNNING | COMPLETE | FAILED | CACHED | CANCELLED

record resource =
  name :: string
  resource_name :: string
  display_name :: string
  description :: "string option"
  schema_title :: string
  metadata :: "pyval pydict"
  parent_contexts :: "string list"
  exec_state :: execution_state

text \<open>
  The module \<^verbatim>\<open>constants\<close> is imported, not part of this file: its values are a
  parameter of every function that reads one.
\<close>

record constants =
  SYSTEM_EXPERIMENT :: string
  SYSTEM_EXPERIMENT_RUN :: string
  SYSTEM_RUN :: string
  SYSTEM_METRICS :: string
  SYSTEM_PIPELINE :: string
  SCHEMA_VERSIONS :: "string \<Rightarrow> string"
  EXPERIMENT_METADATA :: "pyval pydict"

text \<open>
  The classes \<^verbatim>\<open>_MetadataStore\<close>, \<^verbatim>\<open>_Context\<close>, \<^verbatim>\<open>Execution\<close> and \<^verbatim>\<open>Artifact\<close> are
  imported too: their methods are the fields of this record, each a call into the
  service. \<open>get_or_create\<close> takes \<^verbatim>\<open>resource_id\<close>, \<^verbatim>\<open>display_name\<close>, \<^verbatim>\<open>description\<close>,
  \<^verbatim>\<open>schema_title\<close>, \<^verbatim>\<open>schema_version\<close> and \<^verbatim>\<open>metadata\<close>, \<open>None\<close> for an argument
  that is not passed. \<open>pandas_installed\<close> says whether \<^verbatim>\<open>import pandas\<close> succeeds.
\<close>

record 'w metadata_api =
  MetadataStore_get_or_create :: "('w, unit) action"
  Context_get_or_create ::
    "string \<Rightarrow> string option \<Rightarrow> string option \<Rightarrow> string \<Rightarrow> string \<Rightarrow> pyval pydict option
       \<Rightarrow> ('w, resource) action"
  Context_init :: "string \<Rightarrow> ('w, resource) action"
  Context_update :: "resource \<Rightarrow> pyval pydict \<Rightarrow> string \<Rightarrow> ('w, resource) action"
  Context_add_artifacts_and_executions :: "resource \<Rightarrow> string list \<Rightarrow> ('w, unit) action"
  Execution_get_or_create ::
    "string \<Rightarrow> string option \<Rightarrow> string option \<Rightarrow> string \<Rightarrow> string \<Rightarrow> pyval pydict option
       \<Rightarrow> ('w, resource) action"
  Execution_add_artifact :: "resource \<Rightarrow> string list \<Rightarrow> bool \<Rightarrow> ('w, unit) action"
  Execution_update :: "resource \<Rightarrow> pyval pydict \<Rightarrow> ('w, unit) action"
  Execution_list :: "string \<Rightarrow> ('w, resource list) action"
  Execution_query_input_and_output_artifacts :: "resource \<Rightarrow> ('w, resource list) action"
  Artifact_get_or_create ::
    "string \<Rightarrow> string option \<Rightarrow> string option \<Rightarrow> string \<Rightarrow> string \<Rightarrow> pyval pydict option
       \<Rightarrow> ('w, resource) action"
  Artifact_update :: "resource \<Rightarrow> pyval pydict \<Rightarrow> ('w, unit) action"
  pandas_installed :: bool

text \<open>The fields \<^verbatim>\<open>_experiment\<close>, \<^verbatim>\<open>_run\<close> and \<^verbatim>\<open>_metrics\<close> of the object.\<close>

record 'w metadata_service = "'w session" +
  ms_experiment :: "resource option"
  ms_run :: "resource option"
  ms_metrics :: "resource option"

definition get_experiment_schema_version :: "constants \<Rightarrow> string" where
  "get_experiment_schema_version K = SCHEMA_VERSIONS K (SYSTEM_EXPERIMENT K)"

definition MetadataService_reset :: "'w metadata_service \<Rightarrow> 'w metadata_service" where
  "MetadataService_reset s = s\<lparr>ms_experiment := None, ms_run := None, ms_metrics := None\<rparr>"

definition MetadataService_experiment_name :: "'w metadata_service \<Rightarrow> string option" where
  "MetadataService_experiment_name s = map_option display_name (ms_experiment s)"

definition MetadataService_run_name :: "'w metadata_service \<Rightarrow> string option" where
  "MetadataService_run_name s = map_option display_name (ms_run s)"

definition experiment_used_error :: "string \<Rightarrow> string \<Rightarrow> exn" where
  "experiment_used_error experiment title =
     ValueError (''Experiment name '' @ experiment
       @ '' has been used to create other type of resources ('' @ title
       @ '') in this MetadataStore, please choose a different experiment name.'')"

definition MetadataService_set_experiment ::
    "constants \<Rightarrow> 'w metadata_api \<Rightarrow> string \<Rightarrow> string option
       \<Rightarrow> ('w metadata_service, unit) action" where
  "MetadataService_set_experiment K R experiment descr =
     bind (remote (MetadataStore_get_or_create R)) (\<lambda>_.
     bind (modify MetadataService_reset) (\<lambda>_.
     bind (remote (Context_get_or_create R experiment (Some experiment) descr
                     (SYSTEM_EXPERIMENT K) (get_experiment_schema_version K)
                     (Some (EXPERIMENT_METADATA K)))) (\<lambda>experiment_context.
       if schema_title experiment_context \<noteq> SYSTEM_EXPERIMENT K
       then raise (experiment_used_error experiment (schema_title experiment_context))
       else
         bind (if truthy descr \<and> description experiment_context \<noteq> descr
               then remote (Context_update R experiment_context
                              (metadata experiment_context) (the descr))
               else return experiment_context) (\<lambda>experiment_context.
         modify (\<lambda>s. s\<lparr>ms_experiment := Some experiment_context\<rparr>)))))"

definition no_experiment_for_run_error :: "string \<Rightarrow> exn" where
  "no_experiment_for_run_error verb =
     ValueError (''No experiment set for this run. Make sure to call ''
       @ ''aiplatform.init(experiment='my-experiment') before '' @ verb @ '' start_run. '')"

definition run_used_error :: "string \<Rightarrow> string \<Rightarrow> exn" where
  "run_used_error run title =
     ValueError (''Run name '' @ run @ '' has been used to create other type of resources (''
       @ title @ '') in this MetadataStore, please choose a different run name.'')"

definition MetadataService_start_run ::
    "constants \<Rightarrow> 'w metadata_api \<Rightarrow> string \<Rightarrow> ('w metadata_service, unit) action" where
  "MetadataService_start_run K R run s =
     (case ms_experiment s of
        None \<Rightarrow> raise (no_experiment_for_run_error ''trying to'') s
      | Some experiment \<Rightarrow>
         (bind (remote (Execution_get_or_create R (name experiment @ ''-'' @ run) (Some run) None
                          (SYSTEM_RUN K) (SCHEMA_VERSIONS K (SYSTEM_RUN K)) None))
            (\<lambda>run_execution.
          if schema_title run_execution \<noteq> SYSTEM_RUN K
          then raise (run_used_error run (schema_title run_execution))
          else
            bind (remote (Context_add_artifacts_and_executions R experiment
                            [resource_name run_execution])) (\<lambda>_.
            bind (remote (Artifact_get_or_create R (name experiment @ ''-'' @ run @ ''-metrics'')
                            (Some (name experiment @ ''-'' @ run @ ''-metrics'')) None
                            (SYSTEM_METRICS K) (SCHEMA_VERSIONS K (SYSTEM_METRICS K)) None))
              (\<lambda>metrics_artifact.
            if schema_title metrics_artifact \<noteq> SYSTEM_METRICS K
            then raise (run_used_error run (schema_title metrics_artifact))
            else
              bind (remote (Execution_add_artifact R run_execution
                              [resource_name metrics_artifact] False)) (\<lambda>_.
              modify (\<lambda>s. s\<lparr>ms_run := Some run_execution,
                               ms_metrics := Some metrics_artifact\<rparr>)))))) s)"

text \<open>
  \<^verbatim>\<open>_validate_experiment_and_run\<close>, the same text in both classes: it reads whether the
  experiment and the run are set.
\<close>

definition no_experiment_set_error :: "string \<Rightarrow> exn" where
  "no_experiment_set_error method_name =
     ValueError (''No experiment set. Make sure to call ''
       @ ''aiplatform.init(experiment='my-experiment') before trying to '' @ method_name @ ''. '')"

definition no_run_set_error :: "string \<Rightarrow> exn" where
  "no_run_set_error method_name =
     ValueError (''No run set. Make sure to call aiplatform.start_run('my-run') ''
       @ ''before trying to '' @ method_name @ ''. '')"

definition validate_experiment_and_run ::
    "'e option \<Rightarrow> 'r option \<Rightarrow> string \<Rightarrow> ('s, unit) action" where
  "validate_experiment_and_run experiment run method_name =
     (if experiment = None then raise (no_experiment_set_error method_name)
      else if run = None then raise (no_run_set_error method_name)
      else return ())"

definition MetadataService_validate_experiment_and_run ::
    "string \<Rightarrow> ('w metadata_service, unit) action" where
  "MetadataService_validate_experiment_and_run method_name s =
     validate_experiment_and_run (ms_experiment s) (ms_run s) method_name s"

text \<open>Reading an attribute of \<^verbatim>\<open>None\<close>.\<close>

definition none_attribute_error :: "string \<Rightarrow> exn" where
  "none_attribute_error attr =
     AttributeError (CHR 0x27 # ''NoneType'' @ CHR 0x27 # '' object has no attribute ''
       @ CHR 0x27 # attr @ [CHR 0x27])"

definition MetadataService_log_params ::
    "constants \<Rightarrow> 'w metadata_api \<Rightarrow> pyval pydict \<Rightarrow> ('w metadata_service, unit) action" where
  "MetadataService_log_params K R params =
     bind (MetadataService_validate_experiment_and_run ''log_params'') (\<lambda>_ s.
       (case ms_run s of
          None \<Rightarrow> raise (none_attribute_error ''name'') s
        | Some run \<Rightarrow>
           bind (remote (Execution_get_or_create R (name run) None None
                           (SYSTEM_RUN K) (SCHEMA_VERSIONS K (SYSTEM_RUN K)) None))
             (\<lambda>run_execution. remote (Execution_update R run_execution params)) s))"

definition MetadataService_log_metrics ::
    "constants \<Rightarrow> 'w metadata_api \<Rightarrow> pyval pydict \<Rightarrow> ('w metadata_service, unit) action" where
  "MetadataService_log_metrics K R metrics =
     bind (MetadataService_validate_experiment_and_run ''log_metrics'') (\<lambda>_.
     bind (\<lambda>s. (validate_metrics_value_type metrics, s)) (\<lambda>_ s.
       (case ms_metrics s of
          None \<Rightarrow> raise (none_attribute_error ''name'') s
        | Some metrics_artifact \<Rightarrow>
           bind (remote (Artifact_get_or_create R (name metrics_artifact) None None
                           (SYSTEM_METRICS K) (SCHEMA_VERSIONS K (SYSTEM_METRICS K)) None))
             (\<lambda>metric_artifact. remote (Artifact_update R metric_artifact metrics)) s)))"

text \<open>
  \<^verbatim>\<open>_get_experiment_or_pipeline_resource_name\<close>: the constructor \<^verbatim>\<open>_Context(resource_name=name)\<close>
  fetches the context.
\<close>

definition invalid_name_error :: "string \<Rightarrow> string \<Rightarrow> exn" where
  "invalid_name_error source nm =
     ValueError (''Please provide a valid '' @ source @ '' name. '' @ nm @ '' is not a ''
       @ source @ ''.'')"

definition get_experiment_or_pipeline_resource_name ::
    "'w metadata_api \<Rightarrow> string \<Rightarrow> string \<Rightarrow> string \<Rightarrow> (('w, 'z) session_scheme, string) action" where
  "get_experiment_or_pipeline_resource_name R nm source expected_schema =
     bind (remote (Context_init R nm)) (\<lambda>this_context.
       if schema_title this_context \<noteq> expected_schema
       then raise (invalid_name_error source nm)
       else return (resource_name this_context))"

text \<open>
  \<^verbatim>\<open>_query_runs_to_data_frame\<close>. The data frame is built from the list of row
  dictionaries \<^verbatim>\<open>context_summary\<close>, which is what the model returns: a column that a row
  does not have stays absent from the row.
\<close>

definition runs_filter :: "constants \<Rightarrow> string \<Rightarrow> string" where
  "runs_filter K context_resource_name =
     ''schema_title='' @ [CHR 0x22] @ SYSTEM_RUN K @ [CHR 0x22] @ '' AND in_context(''
       @ [CHR 0x22] @ context_resource_name @ [CHR 0x22] @ '')''"

definition run_row :: "string \<Rightarrow> string \<Rightarrow> resource \<Rightarrow> resource list \<Rightarrow> pyval pydict" where
  "run_row source context_id run_execution artifacts =
     (let run_dict = setitem ''run_name'' (PyStr (display_name run_execution))
                       (setitem (source @ ''_name'') (PyStr context_id) []);
          run_dict = dict_update run_dict
                       (execution_to_column_named_metadata ''param'' (metadata run_execution) None)
      in fold (\<lambda>metric_artifact run_dict.
                 dict_update run_dict
                   (execution_to_column_named_metadata ''metric'' (metadata metric_artifact) None))
              artifacts run_dict)"

fun context_summary ::
    "'w metadata_api \<Rightarrow> string \<Rightarrow> string \<Rightarrow> resource list \<Rightarrow> pyval pydict list
       \<Rightarrow> (('w, 'z) session_scheme, pyval pydict list) action" where
  "context_summary R source context_id [] rows s = (Inr rows, s)"
| "context_summary R source context_id (run_execution # run_executions) rows s =
     (case remote (Execution_query_input_and_output_artifacts R run_execution) s of
        (Inl e, s') \<Rightarrow> (Inl e, s')
      | (Inr artifacts, s') \<Rightarrow>
          context_summary R source context_id run_executions
            (rows @ [run_row source context_id run_execution artifacts]) s')"

definition pandas_missing_error :: exn where
  "pandas_missing_error =
     ImportError (''Pandas is not installed and is required to get dataframe as the return format. ''
       @ ''Please install the SDK using '' @ [CHR 0x22] @ ''pip install python-aiplatform[full]''
       @ [CHR 0x22])"

definition query_runs_to_data_frame ::
    "constants \<Rightarrow> 'w metadata_api \<Rightarrow> string \<Rightarrow> string \<Rightarrow> string
       \<Rightarrow> (('w, 'z) session_scheme, pyval pydict list) action" where
  "query_runs_to_data_frame K R context_id context_resource_name source =
     bind (remote (Execution_list R (runs_filter K context_resource_name))) (\<lambda>run_executions.
     bind (context_summary R source context_id run_executions []) (\<lambda>rows.
       if pandas_installed R then return rows else raise pandas_missing_error))"

definition MetadataService_get_experiment_df ::
    "constants \<Rightarrow> 'w metadata_api \<Rightarrow> string option
       \<Rightarrow> ('w metadata_service, pyval pydict list) action" where
  "MetadataService_get_experiment_df K R experiment s =
     (if \<not> truthy experiment then
        (case ms_experiment s of
           None \<Rightarrow> raise (none_attribute_error ''name'') s
         | Some e \<Rightarrow> query_runs_to_data_frame K R (name e) (resource_name e) ''experiment'' s)
      else
        bind (get_experiment_or_pipeline_resource_name R (the experiment) ''experiment''
                (SYSTEM_EXPERIMENT K)) (\<lambda>experiment_resource_name.
          query_runs_to_data_frame K R (the experiment) experiment_resource_name ''experiment'') s)"

definition MetadataService_get_pipeline_df ::
    "constants \<Rightarrow> 'w metadata_api \<Rightarrow> string \<Rightarrow> ('w metadata_service, pyval pydict list) action" where
  "MetadataService_get_pipeline_df K R pipeline =
     bind (get_experiment_or_pipeline_resource_name R pipeline ''pipeline'' (SYSTEM_PIPELINE K))
       (\<lambda>pipeline_resource_name.
          query_runs_to_data_frame K R pipeline pipeline_resource_name ''pipeline'')"

section \<open>The tracker \<^verbatim>\<open>_ExperimentTracker\<close>\<close>

text \<open>
  The classes \<^verbatim>\<open>Experiment\<close> and \<^verbatim>\<open>ExperimentRun\<close> are imported. The tracker holds
  references to their objects and reads only their names; what the objects hold lives in
  the service: an object is given by its attribute \<^verbatim>\<open>name\<close>.
\<close>

datatype experiment_obj = Experiment (experiment_name: string)

datatype experiment_run = ExperimentRun (experiment_run_name: string)

text \<open>
  The methods of the two classes that the tracker calls. \<open>ExperimentRun_init\<close> is the
  constructor \<^verbatim>\<open>ExperimentRun(run_name=..., experiment=...)\<close>, which fetches an existing
  run. A tensorboard is given by its name.
\<close>

record 'w experiment_api =
  Experiment_get_or_create :: "string \<Rightarrow> string option \<Rightarrow> ('w, experiment_obj) action"
  Experiment_assign_backing_tensorboard :: "experiment_obj \<Rightarrow> string \<Rightarrow> ('w, unit) action"
  ExperimentRun_init :: "string \<Rightarrow> experiment_obj \<Rightarrow> ('w, experiment_run) action"
  ExperimentRun_create :: "string \<Rightarrow> experiment_obj \<Rightarrow> string option \<Rightarrow> ('w, experiment_run) action"
  ExperimentRun_assign_backing_tensorboard :: "experiment_run \<Rightarrow> string \<Rightarrow> ('w, unit) action"
  ExperimentRun_update_state :: "experiment_run \<Rightarrow> execution_state \<Rightarrow> ('w, unit) action"
  ExperimentRun_end_run :: "experiment_run \<Rightarrow> execution_state \<Rightarrow> ('w, unit) action"
  ExperimentRun_log_params :: "experiment_run \<Rightarrow> pyval pydict \<Rightarrow> ('w, unit) action"
  ExperimentRun_log_metrics :: "experiment_run \<Rightarrow> pyval pydict \<Rightarrow> ('w, unit) action"

text \<open>The fields \<^verbatim>\<open>_experiment\<close> and \<^verbatim>\<open>_experiment_run\<close> of the object.\<close>

record 'w experiment_tracker = "'w session" +
  et_experiment :: "experiment_obj option"
  et_experiment_run :: "experiment_run option"

definition ExperimentTracker_reset :: "'w experiment_tracker \<Rightarrow> 'w experiment_tracker" where
  "ExperimentTracker_reset s = s\<lparr>et_experiment := None, et_experiment_run := None\<rparr>"

definition ExperimentTracker_experiment_name :: "'w experiment_tracker \<Rightarrow> string option" where
  "ExperimentTracker_experiment_name s = map_option experiment_name (et_experiment s)"

definition ExperimentTracker_set_experiment ::
    "'w experiment_api \<Rightarrow> string \<Rightarrow> string option \<Rightarrow> string option
       \<Rightarrow> ('w experiment_tracker, unit) action" where
  "ExperimentTracker_set_experiment R experiment descr backing_tensorboard =
     bind (modify ExperimentTracker_reset) (\<lambda>_.
     bind (remote (Experiment_get_or_create R experiment descr)) (\<lambda>experiment.
     bind (if truthy backing_tensorboard
           then remote (Experiment_assign_backing_tensorboard R experiment (the backing_tensorboard))
           else return ()) (\<lambda>_.
     modify (\<lambda>s. s\<lparr>et_experiment := Some experiment\<rparr>))))"

definition ExperimentTracker_validate_experiment_and_run ::
    "string \<Rightarrow> ('w experiment_tracker, unit) action" where
  "ExperimentTracker_validate_experiment_and_run method_name s =
     validate_experiment_and_run (et_experiment s) (et_experiment_run s) method_name s"

text \<open>
  \<^verbatim>\<open>end_run\<close>: the \<^verbatim>\<open>finally\<close> clause runs on every way out of the \<^verbatim>\<open>try\<close> block; the
  \<^verbatim>\<open>except\<close> clause catches \<^verbatim>\<open>NotFound\<close> only.
\<close>

definition run_not_found_warning :: "experiment_run \<Rightarrow> string" where
  "run_not_found_warning run =
     ''Experiment run '' @ experiment_run_name run @ '' was not found.'' @ ''It may have been deleted''"

definition ExperimentTracker_end_run ::
    "'w experiment_api \<Rightarrow> execution_state \<Rightarrow> ('w experiment_tracker, unit) action" where
  "ExperimentTracker_end_run R state =
     bind (ExperimentTracker_validate_experiment_and_run ''end_run'') (\<lambda>_ s.
       (case et_experiment_run s of
          None \<Rightarrow> raise (none_attribute_error ''end_run'') s
        | Some run \<Rightarrow>
           (case remote (ExperimentRun_end_run R run state) s of
              (Inr u, s') \<Rightarrow> (Inr (), s'\<lparr>et_experiment_run := None\<rparr>)
            | (Inl (NotFound m), s') \<Rightarrow>
                (Inr (), s'\<lparr>warnings := warnings s' @ [run_not_found_warning run],
                             et_experiment_run := None\<rparr>)
            | (Inl e, s') \<Rightarrow> (Inl e, s'\<lparr>et_experiment_run := None\<rparr>))))"

text \<open>The first step of \<^verbatim>\<open>start_run\<close>: \<^verbatim>\<open>if self._experiment_run: self.end_run()\<close>.\<close>

definition end_active_run :: "'w experiment_api \<Rightarrow> ('w experiment_tracker, unit) action" where
  "end_active_run R s =
     (if et_experiment_run s \<noteq> None then ExperimentTracker_end_run R COMPLETE s
      else return () s)"

definition ExperimentTracker_start_run ::
    "'w experiment_api \<Rightarrow> string \<Rightarrow> string option \<Rightarrow> bool
       \<Rightarrow> ('w experiment_tracker, experiment_run) action" where
  "ExperimentTracker_start_run R run tensorboard resume s =
     (case et_experiment s of
        None \<Rightarrow> raise (no_experiment_for_run_error ''invoking'') s
      | Some experiment \<Rightarrow>
         bind (end_active_run R) (\<lambda>_.
           if resume then
             bind (remote (ExperimentRun_init R run experiment)) (\<lambda>experiment_run.
             bind (modify (\<lambda>s. s\<lparr>et_experiment_run := Some experiment_run\<rparr>)) (\<lambda>_.
             bind (if truthy tensorboard
                   then remote (ExperimentRun_assign_backing_tensorboard R experiment_run
                                  (the tensorboard))
                   else return ()) (\<lambda>_.
             bind (remote (ExperimentRun_update_state R experiment_run RUNNING)) (\<lambda>_.
             return experiment_run))))
           else
             bind (remote (ExperimentRun_create R run experiment tensorboard)) (\<lambda>experiment_run.
             bind (modify (\<lambda>s. s\<lparr>et_experiment_run := Some experiment_run\<rparr>)) (\<lambda>_.
             return experiment_run))) s)"

definition ExperimentTracker_log_params ::
    "'w experiment_api \<Rightarrow> pyval pydict \<Rightarrow> ('w experiment_tracker, unit) action" where
  "ExperimentTracker_log_params R params =
     bind (ExperimentTracker_validate_experiment_and_run ''log_params'') (\<lambda>_ s.
       (case et_experiment_run s of
          None \<Rightarrow> raise (none_attribute_error ''log_params'') s
        | Some run \<Rightarrow> remote (ExperimentRun_log_params R run params) s))"

definition ExperimentTracker_log_metrics ::
    "'w experiment_api \<Rightarrow> pyval pydict \<Rightarrow> ('w experiment_tracker, unit) action" where
  "ExperimentTracker_log_metrics R metrics =
     bind (ExperimentTracker_validate_experiment_and_run ''log_metrics'') (\<lambda>_ s.
       (case et_experiment_run s of
          None \<Rightarrow> raise (none_attribute_error ''log_metrics'') s
        | Some run \<Rightarrow> remote (ExperimentRun_log_metrics R run metrics) s))"

section \<open>The metadata service\<close>

subsection \<open>The store behind \<^verbatim>\<open>_MetadataService\<close>\<close>

text \<open>
  Modelled from the spec: the metadata store and the client classes \<^verbatim>\<open>_MetadataStore\<close>,
  \<^verbatim>\<open>_Context\<close>, \<^verbatim>\<open>Execution\<close> and \<^verbatim>\<open>Artifact\<close> are not part of the sources. The store
  holds the contexts, executions and artifacts in the order of their creation, which
  executions and artifacts are linked under which context, and which artifacts are
  inputs or outputs of which execution.
\<close>

record metadata_store =
  st_exists :: bool
  st_contexts :: "resource list"
  st_executions :: "resource list"
  st_artifacts :: "resource list"
  st_members :: "(string \<times> string) list"
  st_events :: "(string \<times> string \<times> bool) list"

text \<open>Modelled from the spec: the store before anything was created in it.\<close>

definition empty_store :: metadata_store where
  "empty_store = \<lparr>st_exists = False, st_contexts = [], st_executions = [], st_artifacts = [],
                   st_members = [], st_events = []\<rparr>"

text \<open>Modelled from the spec: a resource is found by its id, which is its \<^verbatim>\<open>name\<close>.\<close>

definition find_resource :: "string \<Rightarrow> resource list \<Rightarrow> resource option" where
  "find_resource rid rs = find (\<lambda>r. name r = rid) rs"

text \<open>
  Modelled from the spec: a resource created by \<^verbatim>\<open>get_or_create\<close>. Its full resource
  name is its id under the collection of its kind; an execution starts in the state
  \<^verbatim>\<open>RUNNING\<close>.
\<close>

definition new_resource ::
    "string \<Rightarrow> execution_state \<Rightarrow> string \<Rightarrow> string option \<Rightarrow> string option \<Rightarrow> string
       \<Rightarrow> pyval pydict option \<Rightarrow> resource" where
  "new_resource collection st rid dname descr title md =
     \<lparr>name = rid, resource_name = collection @ ''/'' @ rid,
      display_name = (case dname of None \<Rightarrow> [] | Some d \<Rightarrow> d),
      description = descr, schema_title = title,
      metadata = (case md of None \<Rightarrow> [] | Some m \<Rightarrow> m),
      parent_contexts = [], exec_state = st\<rparr>"

text \<open>
  Modelled from the spec: \<^verbatim>\<open>get_or_create\<close> is idempotent by resource id; it returns the
  resource that exists under the id, whatever its schema, and creates it otherwise.
\<close>

definition store_MetadataStore_get_or_create :: "(metadata_store, unit) action" where
  "store_MetadataStore_get_or_create w = (Inr (), w\<lparr>st_exists := True\<rparr>)"

definition store_Context_get_or_create ::
    "string \<Rightarrow> string option \<Rightarrow> string option \<Rightarrow> string \<Rightarrow> string \<Rightarrow> pyval pydict option
       \<Rightarrow> (metadata_store, resource) action" where
  "store_Context_get_or_create rid dname descr title version md w =
     (case find_resource rid (st_contexts w) of
        Some r \<Rightarrow> (Inr r, w)
      | None \<Rightarrow>
          (let r = new_resource ''contexts'' STATE_UNSPECIFIED rid dname descr title md
           in (Inr r, w\<lparr>st_contexts := st_contexts w @ [r]\<rparr>)))"

definition store_Execution_get_or_create ::
    "string \<Rightarrow> string option \<Rightarrow> string option \<Rightarrow> string \<Rightarrow> string \<Rightarrow> pyval pydict option
       \<Rightarrow> (metadata_store, resource) action" where
  "store_Execution_get_or_create rid dname descr title version md w =
     (case find_resource rid (st_executions w) of
        Some r \<Rightarrow> (Inr r, w)
      | None \<Rightarrow>
          (let r = new_resource ''executions'' RUNNING rid dname descr title md
           in (Inr r, w\<lparr>st_executions := st_executions w @ [r]\<rparr>)))"

definition store_Artifact_get_or_create ::
    "string \<Rightarrow> string option \<Rightarrow> string option \<Rightarrow> string \<Rightarrow> string \<Rightarrow> pyval pydict option
       \<Rightarrow> (metadata_store, resource) action" where
  "store_Artifact_get_or_create rid dname descr title version md w =
     (case find_resource rid (st_artifacts w) of
        Some r \<Rightarrow> (Inr r, w)
      | None \<Rightarrow>
          (let r = new_resource ''artifacts'' STATE_UNSPECIFIED rid dname descr title md
           in (Inr r, w\<lparr>st_artifacts := st_artifacts w @ [r]\<rparr>)))"

text \<open>
  Modelled from the spec: the constructor of a context fetches it by id, and fails with
  \<^verbatim>\<open>NotFound\<close> when the resource is absent.
\<close>

definition store_Context_init :: "string \<Rightarrow> (metadata_store, resource) action" where
  "store_Context_init rid w =
     (case find_resource rid (st_contexts w) of
        Some r \<Rightarrow> (Inr r, w)
      | None \<Rightarrow> (Inl (NotFound rid), w))"

text \<open>
  Modelled from the spec: \<^verbatim>\<open>update\<close> merges the given metadata into the stored ones (new
  keys are added, existing ones overwritten) and, for a context, sets the description.
\<close>

definition replace_resource :: "resource \<Rightarrow> resource list \<Rightarrow> resource list" where
  "replace_resource r' rs = map (\<lambda>r. if name r = name r' then r' else r) rs"

definition store_Context_update ::
    "resource \<Rightarrow> pyval pydict \<Rightarrow> string \<Rightarrow> (metadata_store, resource) action" where
  "store_Context_update c md descr w =
     (case find_resource (name c) (st_contexts w) of
        None \<Rightarrow> (Inl (NotFound (name c)), w)
      | Some r \<Rightarrow>
          (let r' = r\<lparr>metadata := dict_update (metadata r) md, description := Some descr\<rparr>
           in (Inr r', w\<lparr>st_contexts := replace_resource r' (st_contexts w)\<rparr>)))"

definition store_Execution_update :: "resource \<Rightarrow> pyval pydict \<Rightarrow> (metadata_store, unit) action" where
  "store_Execution_update e md w =
     (case find_resource (name e) (st_executions w) of
        None \<Rightarrow> (Inl (NotFound (name e)), w)
      | Some r \<Rightarrow>
          (Inr (), w\<lparr>st_executions :=
                       replace_resource (r\<lparr>metadata := dict_update (metadata r) md\<rparr>)
                         (st_executions w)\<rparr>))"

definition store_Artifact_update :: "resource \<Rightarrow> pyval pydict \<Rightarrow> (metadata_store, unit) action" where
  "store_Artifact_update a md w =
     (case find_resource (name a) (st_artifacts w) of
        None \<Rightarrow> (Inl (NotFound (name a)), w)
      | Some r \<Rightarrow>
          (Inr (), w\<lparr>st_artifacts :=
                       replace_resource (r\<lparr>metadata := dict_update (metadata r) md\<rparr>)
                         (st_artifacts w)\<rparr>))"

text \<open>
  Modelled from the spec: linking executions under a context, and an artifact to an
  execution as input or output, records the link once.
\<close>

definition store_Context_add_artifacts_and_executions ::
    "resource \<Rightarrow> string list \<Rightarrow> (metadata_store, unit) action" where
  "store_Context_add_artifacts_and_executions c execution_resource_names w =
     (Inr (), w\<lparr>st_members :=
                  fold (\<lambda>n ms. List.insert (resource_name c, n) ms) execution_resource_names
                    (st_members w)\<rparr>)"

definition store_Execution_add_artifact ::
    "resource \<Rightarrow> string list \<Rightarrow> bool \<Rightarrow> (metadata_store, unit) action" where
  "store_Execution_add_artifact e artifact_resource_names inp w =
     (Inr (), w\<lparr>st_events :=
                  fold (\<lambda>n es. List.insert (resource_name e, n, inp) es) artifact_resource_names
                    (st_events w)\<rparr>)"

text \<open>
  Modelled from the spec: \<^verbatim>\<open>list\<close> takes a conjunction of an equality on the schema
  title and of a link under a parent context. An execution passes the filter when the
  filter is this conjunction written for its own schema title and one of the contexts
  it is linked under.
\<close>

definition filter_text :: "string \<Rightarrow> string \<Rightarrow> string" where
  "filter_text title context_resource_name =
     ''schema_title='' @ [CHR 0x22] @ title @ [CHR 0x22] @ '' AND in_context(''
       @ [CHR 0x22] @ context_resource_name @ [CHR 0x22] @ '')''"

definition store_Execution_list :: "string \<Rightarrow> (metadata_store, resource list) action" where
  "store_Execution_list flt w =
     (Inr (filter (\<lambda>e. list_ex (\<lambda>(c, n). n = resource_name e \<and> flt = filter_text (schema_title e) c)
                          (st_members w))
             (st_executions w)), w)"

text \<open>
  Modelled from the spec: the artifacts associated to an execution, as input or as
  output.
\<close>

definition store_Execution_query_input_and_output_artifacts ::
    "resource \<Rightarrow> (metadata_store, resource list) action" where
  "store_Execution_query_input_and_output_artifacts e w =
     (Inr (filter (\<lambda>a. list_ex (\<lambda>(x, n, inp). x = resource_name e \<and> n = resource_name a)
                          (st_events w))
             (st_artifacts w)), w)"

text \<open>Modelled from the spec: the client classes over the store, with pandas installed.\<close>

definition store_api :: "metadata_store metadata_api" where
  "store_api =
     \<lparr>MetadataStore_get_or_create = store_MetadataStore_get_or_create,
      Context_get_or_create = store_Context_get_or_create,
      Context_init = store_Context_init,
      Context_update = store_Context_update,
      Context_add_artifacts_and_executions = store_Context_add_artifacts_and_executions,
      Execution_get_or_create = store_Execution_get_or_create,
      Execution_add_artifact = store_Execution_add_artifact,
      Execution_update = store_Execution_update,
      Execution_list = store_Execution_list,
      Execution_query_input_and_output_artifacts =
        store_Execution_query_input_and_output_artifacts,
      Artifact_get_or_create = store_Artifact_get_or_create,
      Artifact_update = store_Artifact_update,
      pandas_installed = True\<rparr>"

text \<open>
  Modelled from the spec: values for the module \<^verbatim>\<open>constants\<close>, one schema title for each
  kind of resource.
\<close>

definition sdk_constants :: constants where
  "sdk_constants =
     \<lparr>SYSTEM_EXPERIMENT = ''system.Experiment'',
      SYSTEM_EXPERIMENT_RUN = ''system.ExperimentRun'',
      SYSTEM_RUN = ''system.Run'',
      SYSTEM_METRICS = ''system.Metrics'',
      SYSTEM_PIPELINE = ''system.Pipeline'',
      SCHEMA_VERSIONS = (\<lambda>title. ''0.0.1''),
      EXPERIMENT_METADATA = [(''experiment_deleted'', PyBool False)]\<rparr>"

text \<open>The tracker as the module creates it: \<^verbatim>\<open>metadata_service = _MetadataService()\<close>.\<close>

definition metadata_service_init :: "'w \<Rightarrow> 'w metadata_service" where
  "metadata_service_init w =
     \<lparr>world = w, warnings = [], ms_experiment = None, ms_run = None, ms_metrics = None\<rparr>"

subsection \<open>The store behind \<^verbatim>\<open>_ExperimentTracker\<close>\<close>

text \<open>
  Modelled from the spec: the classes \<^verbatim>\<open>Experiment\<close> and \<^verbatim>\<open>ExperimentRun\<close> are not part
  of the sources. The store holds the experiments with their descriptions, and each run
  with its state, its parameters and its metrics, under the run's id.
\<close>

record run_record =
  run_state :: execution_state
  run_params :: "pyval pydict"
  run_metrics :: "pyval pydict"

record experiment_store =
  st_experiments :: "(string \<times> string option) list"
  st_runs :: "(string \<times> run_record) list"

text \<open>Modelled from the spec: a run is identified by \<^verbatim>\<open>{experiment_id}-{run_name}\<close>.\<close>

definition run_id :: "experiment_obj \<Rightarrow> string \<Rightarrow> string" where
  "run_id experiment run = experiment_name experiment @ ''-'' @ run"

text \<open>Modelled from the spec: the state of a run in the store, if the run exists.\<close>

definition state_of :: "experiment_store \<Rightarrow> experiment_run \<Rightarrow> execution_state option" where
  "state_of w run = map_option run_state (map_of (st_runs w) (experiment_run_name run))"

text \<open>
  Modelled from the spec: an experiment is created once per name; creating it again
  returns the existing one, with its description updated when one is supplied.
\<close>

definition store_Experiment_get_or_create ::
    "string \<Rightarrow> string option \<Rightarrow> (experiment_store, experiment_obj) action" where
  "store_Experiment_get_or_create nm descr w =
     (case map_of (st_experiments w) nm of
        None \<Rightarrow> (Inr (Experiment nm), w\<lparr>st_experiments := st_experiments w @ [(nm, descr)]\<rparr>)
      | Some d \<Rightarrow>
          (if truthy descr \<and> d \<noteq> descr
           then (Inr (Experiment nm),
                 w\<lparr>st_experiments := AList.update nm descr (st_experiments w)\<rparr>)
           else (Inr (Experiment nm), w)))"

text \<open>Modelled from the spec: tensorboards are outside the store; assigning one succeeds.\<close>

definition store_assign_backing_tensorboard :: "'a \<Rightarrow> string \<Rightarrow> (experiment_store, unit) action" where
  "store_assign_backing_tensorboard x tensorboard w = (Inr (), w)"

text \<open>
  Modelled from the spec: resuming fetches the run by its composed id and fails with
  \<^verbatim>\<open>NotFound\<close> when the run is missing.
\<close>

definition store_ExperimentRun_init ::
    "string \<Rightarrow> experiment_obj \<Rightarrow> (experiment_store, experiment_run) action" where
  "store_ExperimentRun_init run experiment w =
     (case map_of (st_runs w) (run_id experiment run) of
        None \<Rightarrow> (Inl (NotFound (run_id experiment run)), w)
      | Some r \<Rightarrow> (Inr (ExperimentRun (run_id experiment run)), w))"

text \<open>
  Modelled from the spec: creating a run is a \<^verbatim>\<open>get_or_create\<close> by the composed id; a new
  run is \<^verbatim>\<open>RUNNING\<close>, with no parameters and no metrics.
\<close>

definition store_ExperimentRun_create ::
    "string \<Rightarrow> experiment_obj \<Rightarrow> string option \<Rightarrow> (experiment_store, experiment_run) action" where
  "store_ExperimentRun_create run experiment tensorboard w =
     (case map_of (st_runs w) (run_id experiment run) of
        Some r \<Rightarrow> (Inr (ExperimentRun (run_id experiment run)), w)
      | None \<Rightarrow>
          (Inr (ExperimentRun (run_id experiment run)),
           w\<lparr>st_runs := st_runs w @
                [(run_id experiment run,
                  \<lparr>run_state = RUNNING, run_params = [], run_metrics = []\<rparr>)]\<rparr>))"

text \<open>
  Modelled from the spec: ending a run, or updating its state, sets the state of the
  run to the given value, and fails with \<^verbatim>\<open>NotFound\<close> when the run is gone.
\<close>

definition store_ExperimentRun_update_state ::
    "experiment_run \<Rightarrow> execution_state \<Rightarrow> (experiment_store, unit) action" where
  "store_ExperimentRun_update_state run st w =
     (case map_of (st_runs w) (experiment_run_name run) of
        None \<Rightarrow> (Inl (NotFound (experiment_run_name run)), w)
      | Some r \<Rightarrow>
          (Inr (), w\<lparr>st_runs := AList.update (experiment_run_name run) (r\<lparr>run_state := st\<rparr>)
                                  (st_runs w)\<rparr>))"

definition store_ExperimentRun_end_run ::
    "experiment_run \<Rightarrow> execution_state \<Rightarrow> (experiment_store, unit) action" where
  "store_ExperimentRun_end_run run st = store_ExperimentRun_update_state run st"

text \<open>
  Modelled from the spec: logging merges the mapping into the stored one; metrics are
  validated first, every value numeric, before anything is sent.
\<close>

definition store_ExperimentRun_log_params ::
    "experiment_run \<Rightarrow> pyval pydict \<Rightarrow> (experiment_store, unit) action" where
  "store_ExperimentRun_log_params run params w =
     (case map_of (st_runs w) (experiment_run_name run) of
        None \<Rightarrow> (Inl (NotFound (experiment_run_name run)), w)
      | Some r \<Rightarrow>
          (Inr (), w\<lparr>st_runs := AList.update (experiment_run_name run)
                                  (r\<lparr>run_params := dict_update (run_params r) params\<rparr>)
                                  (st_runs w)\<rparr>))"

definition store_ExperimentRun_log_metrics ::
    "experiment_run \<Rightarrow> pyval pydict \<Rightarrow> (experiment_store, unit) action" where
  "store_ExperimentRun_log_metrics run metrics w =
     (case validate_metrics_value_type metrics of
        Inl e \<Rightarrow> (Inl e, w)
      | Inr u \<Rightarrow>
         (case map_of (st_runs w) (experiment_run_name run) of
            None \<Rightarrow> (Inl (NotFound (experiment_run_name run)), w)
          | Some r \<Rightarrow>
              (Inr (), w\<lparr>st_runs := AList.update (experiment_run_name run)
                                      (r\<lparr>run_metrics := dict_update (run_metrics r) metrics\<rparr>)
                                      (st_runs w)\<rparr>)))"

text \<open>Modelled from the spec: the two classes over the store.\<close>

definition experiment_store_api :: "experiment_store experiment_api" where
  "experiment_store_api =
     \<lparr>Experiment_get_or_create = store_Experiment_get_or_create,
      Experiment_assign_backing_tensorboard = store_assign_backing_tensorboard,
      ExperimentRun_init = store_ExperimentRun_init,
      ExperimentRun_create = store_ExperimentRun_create,
      ExperimentRun_assign_backing_tensorboard = store_assign_backing_tensorboard,
      ExperimentRun_update_state = store_ExperimentRun_update_state,
      ExperimentRun_end_run = store_ExperimentRun_end_run,
      ExperimentRun_log_params = store_ExperimentRun_log_params,
      ExperimentRun_log_metrics = store_ExperimentRun_log_metrics\<rparr>"

text \<open>The tracker as the module creates it: \<^verbatim>\<open>experiment_tracker = _ExperimentTracker()\<close>.\<close>

definition experiment_tracker_init :: "'w \<Rightarrow> 'w experiment_tracker" where
  "experiment_tracker_init w =
     \<lparr>world = w, warnings = [], et_experiment = None, et_experiment_run = None\<rparr>"

section \<open>Sample sessions\<close>

text \<open>
  The session of the docstring of \<^verbatim>\<open>get_experiment_df\<close>, on the legacy tracker over
  an empty store: \<^verbatim>\<open>set_experiment("exp-1")\<close>, \<^verbatim>\<open>start_run("run-1")\<close>, and then
  \<^verbatim>\<open>start_run("run-2")\<close>.
\<close>

definition ms_exp1 :: "metadata_store metadata_service" where
  "ms_exp1 = snd (MetadataService_set_experiment sdk_constants store_api ''exp-1'' None
                    (metadata_service_init empty_store))"

definition ms_run1 :: "metadata_store metadata_service" where
  "ms_run1 = snd (MetadataService_start_run sdk_constants store_api ''run-1'' ms_exp1)"

definition ms_run2 :: "metadata_store metadata_service" where
  "ms_run2 = snd (MetadataService_start_run sdk_constants store_api ''run-2'' ms_run1)"

text \<open>
  The round trip: the experiment \<^verbatim>\<open>exp-1\<close>, the run \<^verbatim>\<open>run-1\<close>, one parameter, one
  metric, and the query of the table of the active experiment.
\<close>

definition experiment_roundtrip :: "exn + pyval pydict list" where
  "experiment_roundtrip =
     fst (bind (MetadataService_set_experiment sdk_constants store_api ''exp-1'' None) (\<lambda>_.
          bind (MetadataService_start_run sdk_constants store_api ''run-1'') (\<lambda>_.
          bind (MetadataService_log_params sdk_constants store_api
                  [(''learning_rate'', PyFloat ''0.1'')]) (\<lambda>_.
          bind (MetadataService_log_metrics sdk_constants store_api
                  [(''accuracy'', PyFloat ''0.9'')]) (\<lambda>_.
          MetadataService_get_experiment_df sdk_constants store_api None))))
            (metadata_service_init empty_store))"

text \<open>A service whose metadata store cannot be reached.\<close>

definition unavailable_api :: "metadata_store metadata_api" where
  "unavailable_api =
     store_api\<lparr>MetadataStore_get_or_create := raise (RemoteError ''unavailable'')\<rparr>"

text \<open>The same session on \<^verbatim>\<open>_ExperimentTracker\<close>.\<close>

definition empty_experiment_store :: experiment_store where
  "empty_experiment_store = \<lparr>st_experiments = [], st_runs = []\<rparr>"

definition et_exp1 :: "experiment_store experiment_tracker" where
  "et_exp1 = snd (ExperimentTracker_set_experiment experiment_store_api ''exp-1'' None None
                    (experiment_tracker_init empty_experiment_store))"

definition et_run1 :: "experiment_store experiment_tracker" where
  "et_run1 = snd (ExperimentTracker_start_run experiment_store_api ''run-1'' None False et_exp1)"

text \<open>The run \<^verbatim>\<open>run-1\<close> is active, and was deleted in the service.\<close>

definition et_run1_deleted :: "experiment_store experiment_tracker" where
  "et_run1_deleted = et_run1\<lparr>world := (world et_run1)\<lparr>st_runs := []\<rparr>\<rparr>"

text \<open>A service that refuses to end a run, with an error other than \<^verbatim>\<open>NotFound\<close>.\<close>

definition failing_end_api :: "experiment_store experiment_api" where
  "failing_end_api =
     experiment_store_api\<lparr>ExperimentRun_end_run := (\<lambda>run st. raise (RemoteError ''unavailable''))\<rparr>"

text \<open>A service that cannot create an experiment.\<close>

definition failing_create_api :: "experiment_store experiment_api" where
  "failing_create_api =
     experiment_store_api\<lparr>Experiment_get_or_create :=
                            (\<lambda>nm descr. raise (RemoteError ''unavailable''))\<rparr>"

text \<open>
  The run \<^verbatim>\<open>run-1\<close> is active on the legacy tracker, and the store also holds a context
  \<^verbatim>\<open>pipe-1\<close> that is a pipeline, not an experiment.
\<close>

definition ms_run1_pipeline :: "metadata_store metadata_service" where
  "ms_run1_pipeline =
     ms_run1\<lparr>world := snd (store_Context_get_or_create ''pipe-1'' (Some ''pipe-1'') None
                             ''system.Pipeline'' ''0.0.1'' None (world ms_run1))\<rparr>"

text \<open>
  A sequence of \<^verbatim>\<open>start_run\<close> calls with no \<^verbatim>\<open>end_run\<close> in between, each given by its run
  name, its tensorboard and its \<^verbatim>\<open>resume\<close> flag. An exception ends the sequence; otherwise
  the runs that the calls returned are collected.
\<close>

fun start_runs ::
    "'w experiment_api \<Rightarrow> (string \<times> string option \<times> bool) list
       \<Rightarrow> ('w experiment_tracker, experiment_run list) action" where
  "start_runs R [] s = (Inr [], s)"
| "start_runs R ((run, tensorboard, resume) # calls) s =
     (case ExperimentTracker_start_run R run tensorboard resume s of
        (Inl e, s') \<Rightarrow> (Inl e, s')
      | (Inr r, s') \<Rightarrow>
          (case start_runs R calls s' of
             (Inl e, s'') \<Rightarrow> (Inl e, s'')
           | (Inr rs, s'') \<Rightarrow> (Inr (r # rs), s'')))"

text \<open>The run \<^verbatim>\<open>run-2\<close> started on \<^verbatim>\<open>_ExperimentTracker\<close> while \<^verbatim>\<open>run-1\<close> is active.\<close>

definition et_run2 :: "experiment_store experiment_tracker" where
  "et_run2 = snd (ExperimentTracker_start_run experiment_store_api ''run-2'' None False et_run1)"

text \<open>
  The trackers keep a run only under an experiment: \<^verbatim>\<open>reset\<close>, the only code that unsets
  the experiment, unsets the run too, and \<^verbatim>\<open>start_run\<close> refuses to run without an
  experiment.
\<close>

definition et_consistent :: "'w experiment_tracker \<Rightarrow> bool" where
  "et_consistent s = (et_experiment_run s = None \<or> et_experiment s \<noteq> None)"

definition ms_consistent :: "'w metadata_service \<Rightarrow> bool" where
  "ms_consistent s = (ms_run s = None \<or> ms_experiment s \<noteq> None)"



section \<open>Properties\<close>

subsection \<open>Dictionaries and the column names of the table\<close>

lemmas monad_defs = bind_def return_def raise_def modify_def remote_def

lemma update_fresh: "k \<notin> fst ` set al \<Longrightarrow> AList.update k v al = al @ [(k, v)]"
  by (induction al) auto

lemma map_of_fold_setitem:
  "map_of (fold (\<lambda>(k, v) acc. setitem (f k) v acc) xs acc)
     = map_of acc ++ map_of (rev (map (\<lambda>(k, v). (f k, v)) xs))"
  unfolding setitem_def
proof (induction xs arbitrary: acc)
  case Nil
  then show ?case by simp
next
  case (Cons x xs)
  obtain k v where x: "x = (k, v)" by (cases x)
  show ?case
    by (simp add: x Cons.IH update_conv' map_add_def fun_eq_iff split: option.splits)
qed

lemma keys_fold_setitem:
  "fst ` set (fold (\<lambda>(k, v) acc. setitem (f k) v acc) xs acc) = fst ` set acc \<union> f ` fst ` set xs"
  unfolding setitem_def
proof (induction xs arbitrary: acc)
  case Nil
  then show ?case by simp
next
  case (Cons x xs)
  obtain k v where x: "x = (k, v)" by (cases x)
  have "fst ` set (AList.update (f k) v acc) = insert (f k) (fst ` set acc)"
    using dom_update [of "f k" v acc] by (simp add: dom_map_of_conv_image_fst)
  then show ?case
    by (simp add: x Cons.IH) 
qed

lemma distinct_fold_setitem:
  "distinct (map fst acc) \<Longrightarrow> distinct (map fst (fold (\<lambda>(k, v) acc. setitem (f k) v acc) xs acc))"
  unfolding setitem_def
proof (induction xs arbitrary: acc)
  case Nil
  then show ?case by simp
next
  case (Cons x xs)
  obtain k v where x: "x = (k, v)" by (cases x)
  show ?case
    using Cons.prems by (simp add: x Cons.IH distinct_update)
qed

lemma fold_setitem_fresh:
  "distinct (map fst acc @ map (\<lambda>(k, v). f k) xs)
     \<Longrightarrow> fold (\<lambda>(k, v) acc. setitem (f k) v acc) xs acc = acc @ map (\<lambda>(k, v). (f k, v)) xs"
  unfolding setitem_def
proof (induction xs arbitrary: acc)
  case Nil
  then show ?case by simp
next
  case (Cons x xs)
  obtain k v where x: "x = (k, v)" by (cases x)
  have fresh: "f k \<notin> fst ` set acc" using Cons.prems by (auto simp: x)
  have "distinct (map fst (acc @ [(f k, v)]) @ map (\<lambda>(k, v). f k) xs)"
    using Cons.prems by (auto simp: x)
  then show ?case
    using Cons.IH [of "acc @ [(f k, v)]"] by (simp add: x update_fresh [OF fresh])
qed

lemma map_of_rev_unique:
  assumes "(k, v) \<in> set xs" and "\<forall>(k', v') \<in> set xs. f k' = f k \<longrightarrow> k' = k"
    and "distinct (map fst xs)"
  shows "map_of (rev (map (\<lambda>(k, v). (f k, v)) xs)) (f k) = Some v"
proof -
  have mem: "(f k, v) \<in> set (rev (map (\<lambda>(k, v). (f k, v)) xs))"
    using assms(1) by force
  have uniq: "w = v" if "(f k, w) \<in> set (rev (map (\<lambda>(k, v). (f k, v)) xs))" for w
  proof -
    from that obtain k' where k': "(k', w) \<in> set xs" "f k' = f k" by auto
    with assms(2) have "k' = k" by auto
    with k' assms(1,3) show "w = v" by (meson eq_key_imp_eq_value)
  qed
  from mem have "map_of (rev (map (\<lambda>(k, v). (f k, v)) xs)) (f k) \<noteq> None"
    by (metis map_of_eq_None_iff image_eqI fst_conv)
  then obtain w where w: "map_of (rev (map (\<lambda>(k, v). (f k, v)) xs)) (f k) = Some w" by auto
  then have "(f k, w) \<in> set (rev (map (\<lambda>(k, v). (f k, v)) xs))" by (rule map_of_SomeD)
  with uniq w show ?thesis by simp
qed


lemma column_key_None: "column_key mt None key = mt @ ''.'' @ key"
  by (simp add: column_key_def)

lemma column_key_falsy: "\<not> truthy fp \<Longrightarrow> column_key mt fp key = mt @ ''.'' @ key"
  by (cases fp) (simp_all add: column_key_def)

lemma column_key_prefix: "column_key mt (Some p) (p @ rest) = mt @ ''.'' @ rest"
  by (simp add: column_key_def startswith_def)

lemma column_key_no_prefix:
  "\<not> startswith key p \<Longrightarrow> column_key mt (Some p) key = mt @ ''.'' @ key"
  by (simp add: column_key_def)

text \<open>
  Two keys of one mapping can give the same column: with the prefix \<^verbatim>\<open>input:\<close>, the keys
  \<^verbatim>\<open>input:a\<close> and \<^verbatim>\<open>a\<close> both give \<^verbatim>\<open>param.a\<close>, and the value of the first key is
  not in the result.
\<close>

theorem execution_to_column_named_metadata_counterexample:
  "execution_to_column_named_metadata ''param'' [(''input:a'', PyInt 1), (''a'', PyInt 2)]
     (Some ''input:'') = [(''param.a'', PyInt 2)]
   \<and> map_of (execution_to_column_named_metadata ''param''
               [(''input:a'', PyInt 1), (''a'', PyInt 2)] (Some ''input:''))
        (column_key ''param'' (Some ''input:'') ''input:a'') \<noteq> Some (PyInt 1)"
  by code_simp

text \<open>
  Claim C7, as the code has it. For every metadata dictionary, category tag and optional
  prefix, \<^verbatim>\<open>_execution_to_column_named_metadata\<close> returns a dictionary whose keys are
  exactly the column names \<^verbatim>\<open>{category}.{key}\<close> of the metadata keys, where the prefix is
  removed from a key that starts with it when a non-empty prefix is given, and the key is
  left unchanged otherwise. A column holds the value of the last key, in the order of the
  metadata, that is mapped to it; so the value of a key is carried over unmodified when no
  other key is mapped to the same column, which is always so without a prefix, where the
  result is the metadata with every key renamed, in the same order.
\<close>

theorem execution_to_column_named_metadata_columns:
  assumes "is_dict md"
  shows "is_dict (execution_to_column_named_metadata mt md fp)
    \<and> fst ` set (execution_to_column_named_metadata mt md fp) = column_key mt fp ` fst ` set md
    \<and> map_of (execution_to_column_named_metadata mt md fp)
        = map_of (rev (map (\<lambda>(key, v). (column_key mt fp key, v)) md))
    \<and> (\<forall>(key, v) \<in> set md.
          (\<forall>(key', v') \<in> set md. column_key mt fp key' = column_key mt fp key \<longrightarrow> key' = key)
            \<longrightarrow> map_of (execution_to_column_named_metadata mt md fp) (column_key mt fp key) = Some v)
    \<and> (\<not> truthy fp \<longrightarrow>
          execution_to_column_named_metadata mt md fp = map (\<lambda>(key, v). (mt @ ''.'' @ key, v)) md)
    \<and> (\<forall>key. column_key mt fp key =
          mt @ ''.'' @ (if truthy fp \<and> startswith key (the fp) then drop (length (the fp)) key
                        else key))"
proof (intro conjI)
  let ?f = "column_key mt fp"
  have d: "distinct (map fst md)" using assms by (simp add: is_dict_def)
  show "is_dict (execution_to_column_named_metadata mt md fp)"
    unfolding is_dict_def execution_to_column_named_metadata_def
    by (rule distinct_fold_setitem) simp
  show "fst ` set (execution_to_column_named_metadata mt md fp) = ?f ` fst ` set md"
    unfolding execution_to_column_named_metadata_def
    by (simp add: keys_fold_setitem [of ?f])
  show m: "map_of (execution_to_column_named_metadata mt md fp)
        = map_of (rev (map (\<lambda>(key, v). (?f key, v)) md))"
    unfolding execution_to_column_named_metadata_def
    by (simp add: map_of_fold_setitem [of ?f])
  show "\<forall>(key, v) \<in> set md.
          (\<forall>(key', v') \<in> set md. ?f key' = ?f key \<longrightarrow> key' = key)
            \<longrightarrow> map_of (execution_to_column_named_metadata mt md fp) (?f key) = Some v"
  proof (clarify)
    fix key v
    assume kv: "(key, v) \<in> set md"
      and u: "\<forall>(key', v') \<in> set md. ?f key' = ?f key \<longrightarrow> key' = key"
    show "map_of (execution_to_column_named_metadata mt md fp) (?f key) = Some v"
      unfolding m by (rule map_of_rev_unique [OF kv u d])
  qed
  show "\<not> truthy fp \<longrightarrow>
          execution_to_column_named_metadata mt md fp = map (\<lambda>(key, v). (mt @ ''.'' @ key, v)) md"
  proof
    assume f: "\<not> truthy fp"
    have eq: "?f = (\<lambda>key. mt @ ''.'' @ key)"
      using f by (simp add: fun_eq_iff column_key_falsy)
    have "map (\<lambda>(k, v). mt @ ''.'' @ k) md = map ((\<lambda>key. mt @ ''.'' @ key) \<circ> fst) md"
      by (simp add: case_prod_beta comp_def)
    also have "\<dots> = map (\<lambda>key. mt @ ''.'' @ key) (map fst md)" by simp
    finally have "distinct (map (\<lambda>(k, v). mt @ ''.'' @ k) md)"
      using d by (simp add: distinct_map inj_on_def del: map_map)
    then have "fold (\<lambda>(k, v) acc. setitem (mt @ ''.'' @ k) v acc) md []
                 = [] @ map (\<lambda>(k, v). (mt @ ''.'' @ k, v)) md"
      by (intro fold_setitem_fresh [of "[]" "\<lambda>key. mt @ ''.'' @ key"]) simp
    then show "execution_to_column_named_metadata mt md fp
                 = map (\<lambda>(key, v). (mt @ ''.'' @ key, v)) md"
      unfolding execution_to_column_named_metadata_def eq by simp
  qed
  show "\<forall>key. ?f key =
          mt @ ''.'' @ (if truthy fp \<and> startswith key (the fp) then drop (length (the fp)) key
                        else key)"
    by (cases fp) (auto simp: column_key_def)
qed

theorem execution_to_column_named_metadata_columns_witness:
  "is_dict [(''input:lr'', PyFloat ''0.1''), (''epochs'', PyInt 3)]
   \<and> execution_to_column_named_metadata ''param''
        [(''input:lr'', PyFloat ''0.1''), (''epochs'', PyInt 3)] (Some ''input:'')
       = [(''param.lr'', PyFloat ''0.1''), (''param.epochs'', PyInt 3)]
   \<and> map_of (execution_to_column_named_metadata ''param''
        [(''input:lr'', PyFloat ''0.1''), (''epochs'', PyInt 3)] (Some ''input:''))
        (column_key ''param'' (Some ''input:'') ''input:lr'') = Some (PyFloat ''0.1'')"
proof -
  let ?md = "[(''input:lr'', PyFloat ''0.1''), (''epochs'', PyInt 3)]"
  have h: "is_dict ?md" by (simp add: is_dict_def)
  have e: "execution_to_column_named_metadata ''param'' ?md (Some ''input:'')
             = [(''param.lr'', PyFloat ''0.1''), (''param.epochs'', PyInt 3)]"
    by code_simp
  have c: "column_key ''param'' (Some ''input:'') ''epochs''
             \<noteq> column_key ''param'' (Some ''input:'') ''input:lr''"
    by code_simp
  have "\<forall>(key, v) \<in> set ?md.
          (\<forall>(key', v') \<in> set ?md. column_key ''param'' (Some ''input:'') key'
               = column_key ''param'' (Some ''input:'') key \<longrightarrow> key' = key)
            \<longrightarrow> map_of (execution_to_column_named_metadata ''param'' ?md (Some ''input:''))
                  (column_key ''param'' (Some ''input:'') key) = Some v"
    using execution_to_column_named_metadata_columns [OF h, of "''param''" "Some ''input:''"]
    by blast
  then have "map_of (execution_to_column_named_metadata ''param'' ?md (Some ''input:''))
               (column_key ''param'' (Some ''input:'') ''input:lr'') = Some (PyFloat ''0.1'')"
    using c by simp
  with h e show ?thesis by simp
qed

subsection \<open>Logging without an active run\<close>

lemma validate_experiment_and_run_no_run:
  "validate_experiment_and_run e (None :: 'r option) m s =
     (Inl (if e = None then no_experiment_set_error m else no_run_set_error m), s)"
  by (simp add: validate_experiment_and_run_def raise_def)

lemma validate_experiment_and_run_set:
  "validate_experiment_and_run (Some e) (Some r) m s = (Inr (), s)"
  by (simp add: validate_experiment_and_run_def return_def)

text \<open>
  With no run active, the message of the error depends on whether an experiment is set:
  the two calls below fail with different errors.
\<close>

theorem log_without_run_counterexample:
  "fst (MetadataService_log_params sdk_constants store_api []
          (metadata_service_init empty_store))
     \<noteq> fst (MetadataService_log_params sdk_constants store_api [] ms_exp1)
   \<and> fst (ExperimentTracker_log_metrics experiment_store_api []
          (experiment_tracker_init empty_experiment_store))
     \<noteq> fst (ExperimentTracker_log_metrics experiment_store_api [] et_exp1)"
  by code_simp

text \<open>
  Claim C5, as the code has it. For every call to \<^verbatim>\<open>log_params\<close> or \<^verbatim>\<open>log_metrics\<close> with no
  active run, on either tracker, the call fails with a \<^verbatim>\<open>ValueError\<close> and changes
  nothing. The message embeds the name of the calling method in both cases, and it differs
  between them: it starts with \<^verbatim>\<open>No experiment set.\<close> when the experiment is unset too, and
  with \<^verbatim>\<open>No run set.\<close> when only the run is unset.
\<close>

theorem log_without_run_not_set:
  assumes "ms_run s = None" and "et_experiment_run t = None"
  shows "MetadataService_log_params K R params s =
           (Inl (if ms_experiment s = None then no_experiment_set_error ''log_params''
                 else no_run_set_error ''log_params''), s)
    \<and> MetadataService_log_metrics K R metrics s =
           (Inl (if ms_experiment s = None then no_experiment_set_error ''log_metrics''
                 else no_run_set_error ''log_metrics''), s)
    \<and> ExperimentTracker_log_params X params t =
           (Inl (if et_experiment t = None then no_experiment_set_error ''log_params''
                 else no_run_set_error ''log_params''), t)
    \<and> ExperimentTracker_log_metrics X metrics t =
           (Inl (if et_experiment t = None then no_experiment_set_error ''log_metrics''
                 else no_run_set_error ''log_metrics''), t)
    \<and> no_experiment_set_error method_name =
           ValueError (''No experiment set. Make sure to call ''
             @ ''aiplatform.init(experiment='my-experiment') before trying to ''
             @ method_name @ ''. '')
    \<and> no_run_set_error method_name =
           ValueError (''No run set. Make sure to call aiplatform.start_run('my-run') ''
             @ ''before trying to '' @ method_name @ ''. '')
    \<and> no_experiment_set_error method_name \<noteq> no_run_set_error method_name"
proof (intro conjI)
  show "MetadataService_log_params K R params s =
           (Inl (if ms_experiment s = None then no_experiment_set_error ''log_params''
                 else no_run_set_error ''log_params''), s)"
    using assms(1)
    by (simp add: MetadataService_log_params_def MetadataService_validate_experiment_and_run_def
          bind_def validate_experiment_and_run_no_run)
  show "MetadataService_log_metrics K R metrics s =
           (Inl (if ms_experiment s = None then no_experiment_set_error ''log_metrics''
                 else no_run_set_error ''log_metrics''), s)"
    using assms(1)
    by (simp add: MetadataService_log_metrics_def MetadataService_validate_experiment_and_run_def
          bind_def validate_experiment_and_run_no_run)
  show "ExperimentTracker_log_params X params t =
           (Inl (if et_experiment t = None then no_experiment_set_error ''log_params''
                 else no_run_set_error ''log_params''), t)"
    using assms(2)
    by (simp add: ExperimentTracker_log_params_def
          ExperimentTracker_validate_experiment_and_run_def bind_def
          validate_experiment_and_run_no_run)
  show "ExperimentTracker_log_metrics X metrics t =
           (Inl (if et_experiment t = None then no_experiment_set_error ''log_metrics''
                 else no_run_set_error ''log_metrics''), t)"
    using assms(2)
    by (simp add: ExperimentTracker_log_metrics_def
          ExperimentTracker_validate_experiment_and_run_def bind_def
          validate_experiment_and_run_no_run)
  show "no_experiment_set_error method_name =
           ValueError (''No experiment set. Make sure to call ''
             @ ''aiplatform.init(experiment='my-experiment') before trying to ''
             @ method_name @ ''. '')"
    by (simp add: no_experiment_set_error_def)
  show "no_run_set_error method_name =
           ValueError (''No run set. Make sure to call aiplatform.start_run('my-run') ''
             @ ''before trying to '' @ method_name @ ''. '')"
    by (simp add: no_run_set_error_def)
  show "no_experiment_set_error method_name \<noteq> no_run_set_error method_name"
    by (simp add: no_experiment_set_error_def no_run_set_error_def)
qed

theorem log_without_run_not_set_witness:
  "ms_run ms_exp1 = None \<and> et_experiment_run et_exp1 = None
   \<and> MetadataService_log_params sdk_constants store_api [(''learning_rate'', PyFloat ''0.1'')]
        ms_exp1 = (Inl (no_run_set_error ''log_params''), ms_exp1)
   \<and> ExperimentTracker_log_metrics experiment_store_api [(''accuracy'', PyFloat ''0.9'')]
        et_exp1 = (Inl (no_run_set_error ''log_metrics''), et_exp1)"
proof -
  have h1: "ms_run ms_exp1 = None" by code_simp
  have h2: "et_experiment_run et_exp1 = None" by code_simp
  have e1: "ms_experiment ms_exp1 \<noteq> None" by code_simp
  have e2: "et_experiment et_exp1 \<noteq> None" by code_simp
  show ?thesis
    using log_without_run_not_set [OF h1 h2, of sdk_constants store_api
        "[(''learning_rate'', PyFloat ''0.1'')]" "[(''accuracy'', PyFloat ''0.9'')]"
        experiment_store_api]
      h1 h2 e1 e2
    by simp
qed

subsection \<open>Ending a run\<close>

text \<open>
  Claim C2. For every call to \<^verbatim>\<open>end_run\<close> while a run is active, if the remote end-call
  fails with \<^verbatim>\<open>NotFound\<close>, then \<^verbatim>\<open>end_run\<close> returns without raising, a warning is
  logged, and the reference to the active run is cleared: the tracker is left with its
  experiment and no active run.
\<close>

theorem end_run_not_found:
  assumes "et_experiment s = Some e" and "et_experiment_run s = Some r"
    and "ExperimentRun_end_run R r st (world s) = (Inl (NotFound m), w')"
  shows "ExperimentTracker_end_run R st s =
           (Inr (), s\<lparr>world := w', warnings := warnings s @ [run_not_found_warning r],
                       et_experiment_run := None\<rparr>)
    \<and> et_experiment_run (snd (ExperimentTracker_end_run R st s)) = None
    \<and> et_experiment (snd (ExperimentTracker_end_run R st s)) = Some e"
  using assms
  by (simp add: ExperimentTracker_end_run_def ExperimentTracker_validate_experiment_and_run_def
        bind_def validate_experiment_and_run_set remote_def)

theorem end_run_not_found_witness:
  "et_experiment et_run1_deleted = Some (Experiment ''exp-1'')
   \<and> et_experiment_run et_run1_deleted = Some (ExperimentRun ''exp-1-run-1'')
   \<and> ExperimentRun_end_run experiment_store_api (ExperimentRun ''exp-1-run-1'') COMPLETE
        (world et_run1_deleted) = (Inl (NotFound ''exp-1-run-1''), world et_run1_deleted)
   \<and> fst (ExperimentTracker_end_run experiment_store_api COMPLETE et_run1_deleted) = Inr ()
   \<and> et_experiment_run (snd (ExperimentTracker_end_run experiment_store_api COMPLETE
        et_run1_deleted)) = None"
proof -
  have h1: "et_experiment et_run1_deleted = Some (Experiment ''exp-1'')" by code_simp
  have h2: "et_experiment_run et_run1_deleted = Some (ExperimentRun ''exp-1-run-1'')"
    by code_simp
  have h3: "ExperimentRun_end_run experiment_store_api (ExperimentRun ''exp-1-run-1'') COMPLETE
        (world et_run1_deleted) = (Inl (NotFound ''exp-1-run-1''), world et_run1_deleted)"
    by code_simp
  show ?thesis
    using end_run_not_found [OF h1 h2 h3] h1 h2 h3 by simp
qed

text \<open>
  Claim C9. When the remote end-call raises an exception other than \<^verbatim>\<open>NotFound\<close>, the
  exception propagates to the caller of \<^verbatim>\<open>end_run\<close> unchanged, and afterwards no run is
  active: the \<^verbatim>\<open>finally\<close> clause clears the reference on this path as well.
\<close>

theorem end_run_other_exception:
  assumes "et_experiment s = Some e" and "et_experiment_run s = Some r"
    and "ExperimentRun_end_run R r st (world s) = (Inl x, w')"
    and "\<forall>m. x \<noteq> NotFound m"
  shows "ExperimentTracker_end_run R st s = (Inl x, s\<lparr>world := w', et_experiment_run := None\<rparr>)
    \<and> et_experiment_run (snd (ExperimentTracker_end_run R st s)) = None"
  using assms
  by (cases x)
     (simp_all add: ExperimentTracker_end_run_def ExperimentTracker_validate_experiment_and_run_def
        bind_def validate_experiment_and_run_set remote_def)

theorem end_run_other_exception_witness:
  "et_experiment et_run1 = Some (Experiment ''exp-1'')
   \<and> et_experiment_run et_run1 = Some (ExperimentRun ''exp-1-run-1'')
   \<and> ExperimentRun_end_run failing_end_api (ExperimentRun ''exp-1-run-1'') COMPLETE
        (world et_run1) = (Inl (RemoteError ''unavailable''), world et_run1)
   \<and> (\<forall>m. RemoteError ''unavailable'' \<noteq> NotFound m)
   \<and> fst (ExperimentTracker_end_run failing_end_api COMPLETE et_run1)
        = Inl (RemoteError ''unavailable'')
   \<and> et_experiment_run (snd (ExperimentTracker_end_run failing_end_api COMPLETE et_run1)) = None"
proof -
  have h1: "et_experiment et_run1 = Some (Experiment ''exp-1'')" by code_simp
  have h2: "et_experiment_run et_run1 = Some (ExperimentRun ''exp-1-run-1'')" by code_simp
  have h3: "ExperimentRun_end_run failing_end_api (ExperimentRun ''exp-1-run-1'') COMPLETE
        (world et_run1) = (Inl (RemoteError ''unavailable''), world et_run1)"
    by (simp add: failing_end_api_def raise_def)
  have h4: "\<forall>m. RemoteError ''unavailable'' \<noteq> NotFound m" by simp
  show ?thesis
    using end_run_other_exception [OF h1 h2 h3 h4] h1 h2 h3 h4 by simp
qed

subsection \<open>The values of metrics\<close>

lemma validate_metrics_value_type_find:
  "validate_metrics_value_type metrics =
     (case find (\<lambda>(k, v). \<not> (isinstance_int v \<or> isinstance_float v)) metrics of
        None \<Rightarrow> Inr ()
      | Some (k, v) \<Rightarrow> Inl (metrics_type_error k v))"
  by (induction metrics rule: validate_metrics_value_type.induct) simp_all




text \<open>
  Claim C10. A metrics dictionary whose values are booleans passes
  \<^verbatim>\<open>_validate_metrics_value_type\<close>, since \<^verbatim>\<open>bool\<close> is a subclass of \<^verbatim>\<open>int\<close>, and
  \<^verbatim>\<open>log_metrics\<close> forwards it to the update of the metrics artifact.
\<close>

theorem bool_metric_accepted:
  assumes "ms_experiment s = Some e" and "ms_run s = Some r" and "ms_metrics s = Some a"
    and "\<forall>(k, v) \<in> set metrics. \<exists>b. v = PyBool b"
  shows "validate_metrics_value_type metrics = Inr ()
    \<and> MetadataService_log_metrics K R metrics s =
        bind (remote (Artifact_get_or_create R (name a) None None (SYSTEM_METRICS K)
                        (SCHEMA_VERSIONS K (SYSTEM_METRICS K)) None))
          (\<lambda>metric_artifact. remote (Artifact_update R metric_artifact metrics)) s"
proof -
  have "isinstance_int v" if "(k, v) \<in> set metrics" for k v
  proof -
    from that assms(4) obtain b where "v = PyBool b" by blast
    then show ?thesis by simp
  qed
  then have "find (\<lambda>(k, v). \<not> (isinstance_int v \<or> isinstance_float v)) metrics = None"
    by (auto simp: find_None_iff)
  then have v: "validate_metrics_value_type metrics = Inr ()"
    by (simp add: validate_metrics_value_type_find)
  show ?thesis
    using assms(1-3) v
    by (simp add: MetadataService_log_metrics_def MetadataService_validate_experiment_and_run_def
          bind_def validate_experiment_and_run_set)
qed

theorem bool_metric_accepted_witness:
  "ms_experiment ms_run1 \<noteq> None \<and> ms_run ms_run1 \<noteq> None \<and> ms_metrics ms_run1 \<noteq> None
   \<and> validate_metrics_value_type [(''flag'', PyBool True)] = Inr ()
   \<and> fst (MetadataService_log_metrics sdk_constants store_api [(''flag'', PyBool True)] ms_run1)
       = Inr ()
   \<and> map metadata (st_artifacts (world (snd (MetadataService_log_metrics sdk_constants store_api
        [(''flag'', PyBool True)] ms_run1)))) = [[(''flag'', PyBool True)]]"
proof -
  let ?m = "[(''flag'', PyBool True)]"
  obtain e where h1: "ms_experiment ms_run1 = Some e"
    by (cases "ms_experiment ms_run1") (simp_all, code_simp)
  obtain r where h2: "ms_run ms_run1 = Some r"
    by (cases "ms_run ms_run1") (simp_all, code_simp)
  have h3: "ms_metrics ms_run1 = Some (new_resource ''artifacts'' STATE_UNSPECIFIED
              ''exp-1-run-1-metrics'' (Some ''exp-1-run-1-metrics'') None ''system.Metrics'' None)"
    by code_simp
  have h4: "\<forall>(k, v) \<in> set ?m. \<exists>b. v = PyBool b" by auto
  have g1: "fst (bind (remote (Artifact_get_or_create store_api
              (name (new_resource ''artifacts'' STATE_UNSPECIFIED ''exp-1-run-1-metrics''
                 (Some ''exp-1-run-1-metrics'') None ''system.Metrics'' None))
              None None (SYSTEM_METRICS sdk_constants)
              (SCHEMA_VERSIONS sdk_constants (SYSTEM_METRICS sdk_constants)) None))
            (\<lambda>metric_artifact. remote (Artifact_update store_api metric_artifact ?m)) ms_run1)
          = Inr ()"
    by code_simp
  have g2: "map metadata (st_artifacts (world (snd (bind (remote (Artifact_get_or_create store_api
              (name (new_resource ''artifacts'' STATE_UNSPECIFIED ''exp-1-run-1-metrics''
                 (Some ''exp-1-run-1-metrics'') None ''system.Metrics'' None))
              None None (SYSTEM_METRICS sdk_constants)
              (SCHEMA_VERSIONS sdk_constants (SYSTEM_METRICS sdk_constants)) None))
            (\<lambda>metric_artifact. remote (Artifact_update store_api metric_artifact ?m)) ms_run1))))
          = [?m]"
    by code_simp
  note T = bool_metric_accepted [OF h1 h2 h3 h4, of sdk_constants store_api]
  have c1: "validate_metrics_value_type ?m = Inr ()" by (rule T [THEN conjunct1])
  have c2: "fst (MetadataService_log_metrics sdk_constants store_api ?m ms_run1) = Inr ()"
    unfolding T [THEN conjunct2] by (rule g1)
  have c3: "map metadata (st_artifacts (world (snd (MetadataService_log_metrics sdk_constants
              store_api ?m ms_run1)))) = [?m]"
    unfolding T [THEN conjunct2] by (rule g2)
  have n1: "ms_experiment ms_run1 \<noteq> None" using h1 by simp
  have n2: "ms_run ms_run1 \<noteq> None" using h2 by simp
  have n3: "ms_metrics ms_run1 \<noteq> None" using h3 by simp
  show ?thesis
    using n1 n2 n3 c1 c2 c3 by blast
qed

subsection \<open>Starting a run\<close>

lemma end_run_returns:
  assumes "ExperimentTracker_end_run R st s = (Inr u, s1)"
  shows "et_experiment_run s1 = None \<and> et_experiment s1 = et_experiment s"
proof -
  from assms obtain e r where e: "et_experiment s = Some e" and r: "et_experiment_run s = Some r"
    by (cases "et_experiment s"; cases "et_experiment_run s")
       (simp_all add: ExperimentTracker_end_run_def
          ExperimentTracker_validate_experiment_and_run_def bind_def
          validate_experiment_and_run_def raise_def)
  obtain res w' where c: "ExperimentRun_end_run R r st (world s) = (res, w')"
    by (cases "ExperimentRun_end_run R r st (world s)")
  show ?thesis
    using assms e r c
    by (cases res; cases "projl res")
       (auto simp: ExperimentTracker_end_run_def
          ExperimentTracker_validate_experiment_and_run_def bind_def
          validate_experiment_and_run_set remote_def split: sum.splits exn.splits)
qed

lemma end_active_run_returns:
  assumes "end_active_run R s = (Inr u, s1)"
  shows "et_experiment_run s1 = None \<and> et_experiment s1 = et_experiment s"
proof (cases "et_experiment_run s")
  case None
  with assms show ?thesis by (simp add: end_active_run_def return_def)
next
  case (Some r)
  with assms have "ExperimentTracker_end_run R COMPLETE s = (Inr u, s1)"
    by (simp add: end_active_run_def)
  then show ?thesis by (rule end_run_returns)
qed

lemma end_run_create_irrelevant:
  "ExperimentTracker_end_run (R\<lparr>ExperimentRun_create := c\<rparr>) st = ExperimentTracker_end_run R st"
  by (simp add: ExperimentTracker_end_run_def fun_eq_iff bind_def cong: option.case_cong
        split: prod.splits sum.splits)

lemma end_active_run_create_irrelevant:
  "end_active_run (R\<lparr>ExperimentRun_create := c\<rparr>) = end_active_run R"
  by (simp add: end_active_run_def fun_eq_iff end_run_create_irrelevant)

text \<open>
  Claim C4. For every call to \<^verbatim>\<open>start_run\<close> with \<^verbatim>\<open>resume=True\<close> while an experiment is
  active, once the implicit end of a run that was active has returned: the tracker fetches
  the run with the constructor of \<^verbatim>\<open>ExperimentRun\<close>; when the fetch fails with \<^verbatim>\<open>NotFound\<close>
  the call fails with that same error and no run is active; when the fetch returns a run,
  the run becomes the active one and its state is set to \<^verbatim>\<open>RUNNING\<close>. In no case is
  \<^verbatim>\<open>ExperimentRun.create\<close> called: the call is the same whatever \<^verbatim>\<open>create\<close> would do.
\<close>

theorem start_run_resume:
  assumes "et_experiment s = Some e" and "end_active_run R s = (Inr (), s1)"
  shows "(ExperimentRun_init R run e (world s1) = (Inl (NotFound m), w2) \<longrightarrow>
            ExperimentTracker_start_run R run tb True s = (Inl (NotFound m), s1\<lparr>world := w2\<rparr>)
            \<and> et_experiment_run (s1\<lparr>world := w2\<rparr>) = None)
    \<and> (ExperimentRun_init R run e (world s1) = (Inr r, w2) \<longrightarrow>
            ExperimentTracker_start_run R run tb True s =
              bind (if truthy tb
                    then remote (ExperimentRun_assign_backing_tensorboard R r (the tb))
                    else return ()) (\<lambda>_.
              bind (remote (ExperimentRun_update_state R r RUNNING)) (\<lambda>_. return r))
                (s1\<lparr>world := w2, et_experiment_run := Some r\<rparr>))
    \<and> ExperimentTracker_start_run (R\<lparr>ExperimentRun_create := c\<rparr>) run tb True s
        = ExperimentTracker_start_run R run tb True s"
proof (intro conjI impI)
  have n: "et_experiment_run s1 = None"
    using end_active_run_returns [OF assms(2)] by simp
  show "ExperimentTracker_start_run R run tb True s = (Inl (NotFound m), s1\<lparr>world := w2\<rparr>)"
    if "ExperimentRun_init R run e (world s1) = (Inl (NotFound m), w2)"
    using assms that by (simp add: ExperimentTracker_start_run_def bind_def remote_def)
  show "et_experiment_run (s1\<lparr>world := w2\<rparr>) = None"
    using n by simp
  show "ExperimentTracker_start_run R run tb True s =
          bind (if truthy tb
                then remote (ExperimentRun_assign_backing_tensorboard R r (the tb))
                else return ()) (\<lambda>_.
          bind (remote (ExperimentRun_update_state R r RUNNING)) (\<lambda>_. return r))
            (s1\<lparr>world := w2, et_experiment_run := Some r\<rparr>)"
    if "ExperimentRun_init R run e (world s1) = (Inr r, w2)"
    using assms that
    by (simp add: ExperimentTracker_start_run_def bind_def remote_def modify_def)
  show "ExperimentTracker_start_run (R\<lparr>ExperimentRun_create := c\<rparr>) run tb True s
        = ExperimentTracker_start_run R run tb True s"
    by (cases "truthy tb")
       (simp_all add: ExperimentTracker_start_run_def end_active_run_create_irrelevant
          cong: option.case_cong)
qed

theorem start_run_resume_witness:
  "et_experiment et_exp1 = Some (Experiment ''exp-1'')
   \<and> end_active_run experiment_store_api et_exp1 = (Inr (), et_exp1)
   \<and> ExperimentRun_init experiment_store_api ''run-9'' (Experiment ''exp-1'') (world et_exp1)
        = (Inl (NotFound ''exp-1-run-9''), world et_exp1)
   \<and> ExperimentTracker_start_run experiment_store_api ''run-9'' None True et_exp1
        = (Inl (NotFound ''exp-1-run-9''), et_exp1)
   \<and> st_runs (world et_exp1) = []"
proof -
  have h1: "et_experiment et_exp1 = Some (Experiment ''exp-1'')" by code_simp
  have h2: "end_active_run experiment_store_api et_exp1 = (Inr (), et_exp1)" by code_simp
  have h3: "ExperimentRun_init experiment_store_api ''run-9'' (Experiment ''exp-1'')
              (world et_exp1) = (Inl (NotFound ''exp-1-run-9''), world et_exp1)"
    by code_simp
  have h4: "st_runs (world et_exp1) = []" by code_simp
  note T = start_run_resume [OF h1 h2, of "''run-9''" "''exp-1-run-9''" "world et_exp1" None]
  have "ExperimentTracker_start_run experiment_store_api ''run-9'' None True et_exp1
          = (Inl (NotFound ''exp-1-run-9''), et_exp1\<lparr>world := world et_exp1\<rparr>)"
    using T h3 by blast
  then have c: "ExperimentTracker_start_run experiment_store_api ''run-9'' None True et_exp1
          = (Inl (NotFound ''exp-1-run-9''), et_exp1)"
    by simp
  show ?thesis using h1 h2 h3 h4 c by blast
qed

subsection \<open>Setting the experiment\<close>

text \<open>
  The legacy tracker calls \<^verbatim>\<open>_MetadataStore.get_or_create()\<close> before it resets its fields:
  when that call fails, the experiment and the run that were active still are.
\<close>

theorem set_experiment_counterexample:
  "MetadataService_set_experiment sdk_constants unavailable_api ''exp-2'' None ms_run1
     = (Inl (RemoteError ''unavailable''), ms_run1)
   \<and> ms_experiment ms_run1 \<noteq> None \<and> ms_run ms_run1 \<noteq> None"
  by code_simp

text \<open>
  Claim C8, as the code has it. \<^verbatim>\<open>_ExperimentTracker.set_experiment\<close> clears the active
  experiment and run before any remote call: it gives the same result from the cleared
  tracker, and whenever it fails, the tracker has no active experiment and no active run.
  \<^verbatim>\<open>_MetadataService.set_experiment\<close> first calls \<^verbatim>\<open>_MetadataStore.get_or_create()\<close>: when
  this call fails, the error propagates and the fields of the tracker are as before; once
  it has returned, any later failure (the get-or-create of the context, the check of the
  schema title, the update of the description) leaves the tracker with no active
  experiment, run or metrics artifact.
\<close>

theorem set_experiment_failure:
  "(ExperimentTracker_set_experiment X nm d tb t = (Inl err, t') \<longrightarrow>
      et_experiment t' = None \<and> et_experiment_run t' = None)
   \<and> ExperimentTracker_set_experiment X nm d tb t
       = ExperimentTracker_set_experiment X nm d tb (ExperimentTracker_reset t)
   \<and> (MetadataStore_get_or_create R (world s) = (Inl err, w1) \<longrightarrow>
        MetadataService_set_experiment K R nm d s = (Inl err, s\<lparr>world := w1\<rparr>))
   \<and> (MetadataStore_get_or_create R (world s) = (Inr (), w1) \<longrightarrow>
        MetadataService_set_experiment K R nm d s = (Inl err, s') \<longrightarrow>
        ms_experiment s' = None \<and> ms_run s' = None \<and> ms_metrics s' = None)"
proof (intro conjI impI)
  assume a: "ExperimentTracker_set_experiment X nm d tb t = (Inl err, t')"
  show "et_experiment t' = None" and "et_experiment_run t' = None"
    using a
    by (auto simp: ExperimentTracker_set_experiment_def ExperimentTracker_reset_def bind_def
          modify_def remote_def return_def split: prod.splits sum.splits if_splits)
next
  show "ExperimentTracker_set_experiment X nm d tb t
       = ExperimentTracker_set_experiment X nm d tb (ExperimentTracker_reset t)"
    by (simp add: ExperimentTracker_set_experiment_def ExperimentTracker_reset_def bind_def
          modify_def)
next
  assume "MetadataStore_get_or_create R (world s) = (Inl err, w1)"
  then show "MetadataService_set_experiment K R nm d s = (Inl err, s\<lparr>world := w1\<rparr>)"
    by (simp add: MetadataService_set_experiment_def bind_def remote_def)
next
  assume a: "MetadataStore_get_or_create R (world s) = (Inr (), w1)"
    and b: "MetadataService_set_experiment K R nm d s = (Inl err, s')"
  show "ms_experiment s' = None" and "ms_run s' = None" and "ms_metrics s' = None"
    using a b
    by (auto simp: MetadataService_set_experiment_def MetadataService_reset_def bind_def
          modify_def remote_def return_def raise_def split: prod.splits sum.splits if_splits)
qed

theorem set_experiment_failure_witness:
  "ExperimentTracker_set_experiment failing_create_api ''exp-2'' None None et_run1
     = (Inl (RemoteError ''unavailable''), ExperimentTracker_reset et_run1)
   \<and> et_experiment (ExperimentTracker_reset et_run1) = None
   \<and> et_experiment_run (ExperimentTracker_reset et_run1) = None
   \<and> MetadataStore_get_or_create store_api (world ms_run1_pipeline)
       = (Inr (), world ms_run1_pipeline)
   \<and> MetadataService_set_experiment sdk_constants store_api ''pipe-1'' None ms_run1_pipeline
       = (Inl (experiment_used_error ''pipe-1'' ''system.Pipeline''),
          MetadataService_reset ms_run1_pipeline)
   \<and> ms_experiment (MetadataService_reset ms_run1_pipeline) = None
   \<and> ms_run (MetadataService_reset ms_run1_pipeline) = None
   \<and> ms_experiment ms_run1_pipeline \<noteq> None \<and> ms_run ms_run1_pipeline \<noteq> None"
proof -
  have h1: "ExperimentTracker_set_experiment failing_create_api ''exp-2'' None None et_run1
     = (Inl (RemoteError ''unavailable''), ExperimentTracker_reset et_run1)"
    by (simp add: ExperimentTracker_set_experiment_def failing_create_api_def bind_def modify_def
          remote_def raise_def ExperimentTracker_reset_def)
  have h2: "MetadataStore_get_or_create store_api (world ms_run1_pipeline)
       = (Inr (), world ms_run1_pipeline)"
    by code_simp
  have h3: "MetadataService_set_experiment sdk_constants store_api ''pipe-1'' None
       ms_run1_pipeline
       = (Inl (experiment_used_error ''pipe-1'' ''system.Pipeline''),
          MetadataService_reset ms_run1_pipeline)"
    by code_simp
  have h4: "ms_experiment ms_run1_pipeline \<noteq> None \<and> ms_run ms_run1_pipeline \<noteq> None"
    by code_simp
  note T = set_experiment_failure [of failing_create_api "''exp-2''" None None et_run1
      "RemoteError ''unavailable''" "ExperimentTracker_reset et_run1"
      store_api ms_run1_pipeline "world ms_run1_pipeline" sdk_constants]
  have c1: "et_experiment (ExperimentTracker_reset et_run1) = None
      \<and> et_experiment_run (ExperimentTracker_reset et_run1) = None"
    using T h1 by blast
  show ?thesis using h1 h2 h3 h4 c1 by (simp add: MetadataService_reset_def)
qed

subsection \<open>A run started while another one is active\<close>

lemma start_run_returns:
  assumes "ExperimentTracker_start_run R run tb resume s = (Inr r, s')"
  shows "et_experiment_run s' = Some r \<and> et_experiment s' = et_experiment s"
proof -
  from assms obtain e where e: "et_experiment s = Some e"
    by (cases "et_experiment s") (simp_all add: ExperimentTracker_start_run_def raise_def)
  obtain res s1 where a: "end_active_run R s = (res, s1)"
    by (cases "end_active_run R s")
  from assms e a obtain u where res: "res = Inr u"
    by (cases res) (simp_all add: ExperimentTracker_start_run_def bind_def)
  have s1: "et_experiment s1 = Some e"
    using end_active_run_returns [of R s u s1] a res e by simp
  show ?thesis
    using assms e a res s1
    by (auto simp: ExperimentTracker_start_run_def bind_def remote_def modify_def return_def
          split: prod.splits sum.splits if_splits)
qed

lemma start_run_after_end:
  assumes "et_experiment s = Some e" and "et_experiment_run s = Some p"
  shows "ExperimentTracker_start_run R run tb resume s =
           bind (ExperimentTracker_end_run R COMPLETE)
             (\<lambda>_. ExperimentTracker_start_run R run tb resume) s"
proof -
  obtain res s1 where a: "ExperimentTracker_end_run R COMPLETE s = (res, s1)"
    by (cases "ExperimentTracker_end_run R COMPLETE s")
  have b: "end_active_run R s = (res, s1)"
    using a assms(2) by (simp add: end_active_run_def)
  show ?thesis
  proof (cases res)
    case (Inl x)
    then show ?thesis
      using a b assms(1) by (simp add: ExperimentTracker_start_run_def bind_def)
  next
    case (Inr u)
    have n: "et_experiment_run s1 = None" and e: "et_experiment s1 = Some e"
      using end_run_returns [of R COMPLETE s u s1] a Inr assms(1) by simp_all
    have c: "end_active_run R s1 = (Inr (), s1)"
      using n by (simp add: end_active_run_def return_def)
    show ?thesis
      using a b Inr assms(1) e c by (simp add: ExperimentTracker_start_run_def bind_def)
  qed
qed

lemma start_runs_last:
  "calls \<noteq> [] \<Longrightarrow> start_runs R calls s = (Inr rs, s')
     \<Longrightarrow> rs \<noteq> [] \<and> et_experiment_run s' = Some (last rs)"
proof (induction calls arbitrary: s rs)
  case Nil
  then show ?case by simp
next
  case (Cons c calls)
  obtain run tb resume where c: "c = (run, tb, resume)" by (cases c)
  from Cons.prems(2) obtain r s1 rs1 where
    r: "ExperimentTracker_start_run R run tb resume s = (Inr r, s1)"
    and t: "start_runs R calls s1 = (Inr rs1, s')" and rs: "rs = r # rs1"
    by (auto simp: c split: prod.splits sum.splits)
  show ?case
  proof (cases calls)
    case Nil
    with t have "rs1 = []" and "s' = s1" by simp_all
    with rs start_run_returns [OF r] show ?thesis by simp
  next
    case (Cons c' calls')
    then have "calls \<noteq> []" by simp
    from Cons.IH [OF this t] rs show ?thesis by simp
  qed
qed

lemma store_end_run_running:
  assumes "state_of w p = Some st"
  shows "\<exists>w'. ExperimentRun_end_run experiment_store_api p COMPLETE w = (Inr (), w')
           \<and> state_of w' p = Some COMPLETE"
proof -
  from assms obtain rr where rr: "map_of (st_runs w) (experiment_run_name p) = Some rr"
    by (auto simp: state_of_def)
  show ?thesis
    using rr
    by (simp add: experiment_store_api_def store_ExperimentRun_end_run_def
          store_ExperimentRun_update_state_def state_of_def update_conv')
qed

lemma find_append_Some: "find P xs = Some x \<Longrightarrow> find P (xs @ ys) = Some x"
  by (induction xs) (auto split: if_splits)

lemma find_name: "find_resource rid rs = Some r \<Longrightarrow> name r = rid"
  by (auto simp: find_resource_def find_Some_iff)

lemma legacy_start_run_keeps_executions:
  assumes "MetadataService_start_run K store_api run s = (res, s')"
    and "find_resource x (st_executions (world s)) = Some ex"
  shows "find_resource x (st_executions (world s')) = Some ex"
proof (cases "ms_experiment s")
  case None
  with assms show ?thesis by (simp add: MetadataService_start_run_def raise_def)
next
  case (Some e)
  show ?thesis
    using assms Some find_append_Some [of "\<lambda>r. name r = x" "st_executions (world s)" ex]
    by (auto simp: MetadataService_start_run_def bind_def remote_def modify_def raise_def
          store_api_def store_Execution_get_or_create_def store_Artifact_get_or_create_def
          store_Context_add_artifacts_and_executions_def store_Execution_add_artifact_def
          find_resource_def Let_def
          split: prod.splits sum.splits if_splits option.splits)
qed

lemma legacy_start_run_sets_run:
  assumes "MetadataService_start_run K store_api run s = (Inr u, s')"
    and "ms_experiment s = Some e"
  shows "map_option name (ms_run s') = Some (name e @ ''-'' @ run)
    \<and> ms_experiment s' = Some e"
  using assms
  by (auto simp: MetadataService_start_run_def bind_def remote_def modify_def raise_def
        store_api_def store_Execution_get_or_create_def store_Artifact_get_or_create_def
        store_Context_add_artifacts_and_executions_def store_Execution_add_artifact_def
        new_resource_def Let_def dest: find_name
        split: prod.splits sum.splits if_splits option.splits)


text \<open>
  On the legacy tracker, \<^verbatim>\<open>start_run("run-2")\<close> while \<^verbatim>\<open>run-1\<close> is active makes \<^verbatim>\<open>run-2\<close>
  the active run and performs no implicit end: the execution of \<^verbatim>\<open>run-1\<close> is \<^verbatim>\<open>RUNNING\<close> in
  the store before the call and after it. On \<^verbatim>\<open>_ExperimentTracker\<close>, a call that raises
  has ended the active run all the same: after \<^verbatim>\<open>start_run("run-9", resume=True)\<close> for a
  run that does not exist, no run is active, though \<^verbatim>\<open>run-1\<close> is the last run that was
  started.
\<close>

theorem start_run_legacy_counterexample:
  "fst (MetadataService_start_run sdk_constants store_api ''run-2'' ms_run1) = Inr ()
   \<and> map_option name (ms_run ms_run1) = Some ''exp-1-run-1''
   \<and> map_option name (ms_run ms_run2) = Some ''exp-1-run-2''
   \<and> map_option exec_state (find_resource ''exp-1-run-1'' (st_executions (world ms_run1)))
       = Some RUNNING
   \<and> map_option exec_state (find_resource ''exp-1-run-1'' (st_executions (world ms_run2)))
       = Some RUNNING
   \<and> et_experiment_run et_run1 = Some (ExperimentRun ''exp-1-run-1'')
   \<and> fst (ExperimentTracker_start_run experiment_store_api ''run-9'' None True et_run1)
       = Inl (NotFound ''exp-1-run-9'')
   \<and> et_experiment_run
         (snd (ExperimentTracker_start_run experiment_store_api ''run-9'' None True et_run1))
       = None"
  by code_simp

text \<open>
  Claim C1, as the code has it. On \<^verbatim>\<open>_ExperimentTracker\<close>, a call to \<^verbatim>\<open>start_run\<close> made while
  a run is active and \<^verbatim>\<open>RUNNING\<close> in the service, and that returns, first performs
  \<^verbatim>\<open>end_run\<close> with the state \<^verbatim>\<open>COMPLETE\<close> on that run, which advances its remote state to
  \<^verbatim>\<open>COMPLETE\<close> and clears the reference, and then starts the new run from there; the run it
  returns is the active run afterwards. So after every sequence of \<^verbatim>\<open>start_run\<close> calls that
  return, the active run is the one that the last call returned. The legacy
  \<^verbatim>\<open>_MetadataService.start_run\<close> replaces the active run as well, but has no implicit end:
  every execution that is in the store before the call is the same after it.
\<close>

theorem start_run_ends_active_run:
  assumes "et_experiment s = Some e" and "et_experiment_run s = Some p"
    and "state_of (world s) p = Some RUNNING"
    and "ExperimentTracker_start_run experiment_store_api run tb resume s = (Inr r, s')"
  shows "et_experiment_run s' = Some r
    \<and> (\<exists>s1. ExperimentTracker_end_run experiment_store_api COMPLETE s = (Inr (), s1)
          \<and> et_experiment_run s1 = None \<and> state_of (world s1) p = Some COMPLETE
          \<and> ExperimentTracker_start_run experiment_store_api run tb resume s1 = (Inr r, s'))
    \<and> (calls \<noteq> [] \<and> start_runs X calls t = (Inr rs, t') \<longrightarrow>
          rs \<noteq> [] \<and> et_experiment_run t' = Some (last rs))
    \<and> (ms_experiment m = Some me \<and> MetadataService_start_run K store_api run m = (Inr (), m')
          \<longrightarrow> map_option name (ms_run m') = Some (name me @ ''-'' @ run))
    \<and> (find_resource x (st_executions (world m)) = Some ex
          \<and> MetadataService_start_run K store_api run m = (res, m')
          \<longrightarrow> find_resource x (st_executions (world m')) = Some ex)"
proof (intro conjI impI)
  show "et_experiment_run s' = Some r"
    using start_run_returns [OF assms(4)] by simp
  show "\<exists>s1. ExperimentTracker_end_run experiment_store_api COMPLETE s = (Inr (), s1)
          \<and> et_experiment_run s1 = None \<and> state_of (world s1) p = Some COMPLETE
          \<and> ExperimentTracker_start_run experiment_store_api run tb resume s1 = (Inr r, s')"
  proof -
    from store_end_run_running [OF assms(3)] obtain w' where
      w: "ExperimentRun_end_run experiment_store_api p COMPLETE (world s) = (Inr (), w')"
      and c: "state_of w' p = Some COMPLETE"
      by blast
    let ?s1 = "s\<lparr>world := w', et_experiment_run := None\<rparr>"
    have a: "ExperimentTracker_end_run experiment_store_api COMPLETE s = (Inr (), ?s1)"
      using assms(1,2) w
      by (simp add: ExperimentTracker_end_run_def
            ExperimentTracker_validate_experiment_and_run_def bind_def
            validate_experiment_and_run_set remote_def)
    have "ExperimentTracker_start_run experiment_store_api run tb resume ?s1 = (Inr r, s')"
      using start_run_after_end [OF assms(1,2), of experiment_store_api run tb resume] assms(4) a
      by (simp add: bind_def)
    with a c show ?thesis by auto
  qed
  show "rs \<noteq> []" and "et_experiment_run t' = Some (last rs)"
    if "calls \<noteq> [] \<and> start_runs X calls t = (Inr rs, t')"
    using start_runs_last [of calls X t rs t'] that by simp_all
  show "map_option name (ms_run m') = Some (name me @ ''-'' @ run)"
    if "ms_experiment m = Some me \<and> MetadataService_start_run K store_api run m = (Inr (), m')"
    using legacy_start_run_sets_run [of K run m "()" m' me] that by simp
  show "find_resource x (st_executions (world m')) = Some ex"
    if "find_resource x (st_executions (world m)) = Some ex
          \<and> MetadataService_start_run K store_api run m = (res, m')"
    using legacy_start_run_keeps_executions [of K run m res m' x ex] that by simp
qed

theorem start_run_ends_active_run_witness:
  "et_experiment et_run1 = Some (Experiment ''exp-1'')
   \<and> et_experiment_run et_run1 = Some (ExperimentRun ''exp-1-run-1'')
   \<and> state_of (world et_run1) (ExperimentRun ''exp-1-run-1'') = Some RUNNING
   \<and> ExperimentTracker_start_run experiment_store_api ''run-2'' None False et_run1
       = (Inr (ExperimentRun ''exp-1-run-2''), et_run2)
   \<and> et_experiment_run et_run2 = Some (ExperimentRun ''exp-1-run-2'')
   \<and> state_of (world et_run2) (ExperimentRun ''exp-1-run-1'') = Some COMPLETE"
proof -
  have h1: "et_experiment et_run1 = Some (Experiment ''exp-1'')" by code_simp
  have h2: "et_experiment_run et_run1 = Some (ExperimentRun ''exp-1-run-1'')" by code_simp
  have h3: "state_of (world et_run1) (ExperimentRun ''exp-1-run-1'') = Some RUNNING"
    by code_simp
  have f: "fst (ExperimentTracker_start_run experiment_store_api ''run-2'' None False et_run1)
             = Inr (ExperimentRun ''exp-1-run-2'')"
    by code_simp
  have h4: "ExperimentTracker_start_run experiment_store_api ''run-2'' None False et_run1
       = (Inr (ExperimentRun ''exp-1-run-2''), et_run2)"
    using f by (simp add: et_run2_def prod_eq_iff)
  have c1: "et_experiment_run et_run2 = Some (ExperimentRun ''exp-1-run-2'')"
    using start_run_ends_active_run [OF h1 h2 h3 h4] by blast
  have c2: "state_of (world et_run2) (ExperimentRun ''exp-1-run-1'') = Some COMPLETE"
    by code_simp
  show ?thesis using h1 h2 h3 h4 c1 c2 by blast
qed

subsection \<open>The table of an experiment\<close>

text \<open>
  Claim C6. From an empty store, setting the experiment \<^verbatim>\<open>exp-1\<close>, starting the run
  \<^verbatim>\<open>run-1\<close>, logging the parameter \<^verbatim>\<open>learning_rate = 0.1\<close> and the metric
  \<^verbatim>\<open>accuracy = 0.9\<close>, and querying the table of the experiment gives exactly one row, with
  the experiment name, the run name, \<^verbatim>\<open>param.learning_rate\<close> and \<^verbatim>\<open>metric.accuracy\<close>.
\<close>

theorem experiment_roundtrip_row:
  "experiment_roundtrip =
     Inr [[(''experiment_name'', PyStr ''exp-1''), (''run_name'', PyStr ''run-1''),
           (''param.learning_rate'', PyFloat ''0.1''), (''metric.accuracy'', PyFloat ''0.9'')]]"
  by code_simp

subsection \<open>A run is active only under an experiment\<close>

lemma et_consistent_init: "et_consistent (experiment_tracker_init w)"
  by (simp add: et_consistent_def experiment_tracker_init_def)

lemma et_consistent_set_experiment:
  "ExperimentTracker_set_experiment R nm d tb s = (res, s') \<Longrightarrow> et_consistent s'"
  by (auto simp: ExperimentTracker_set_experiment_def ExperimentTracker_reset_def bind_def
        modify_def remote_def return_def et_consistent_def
        split: prod.splits sum.splits if_splits)

lemma et_consistent_end_run:
  assumes "ExperimentTracker_end_run R st s = (res, s')" and "et_consistent s"
  shows "et_consistent s'"
proof (cases "et_experiment s")
  case None
  with assms show ?thesis
    by (simp add: ExperimentTracker_end_run_def
          ExperimentTracker_validate_experiment_and_run_def bind_def
          validate_experiment_and_run_def raise_def et_consistent_def)
next
  case (Some e)
  show ?thesis
  proof (cases "et_experiment_run s")
    case None
    with assms Some show ?thesis
      by (simp add: ExperimentTracker_end_run_def
            ExperimentTracker_validate_experiment_and_run_def bind_def
            validate_experiment_and_run_def raise_def et_consistent_def)
  next
    case (Some r)
    obtain x w' where c: "ExperimentRun_end_run R r st (world s) = (x, w')"
      by (cases "ExperimentRun_end_run R r st (world s)")
    show ?thesis
      using assms \<open>et_experiment s = Some e\<close> Some c
      by (cases x; cases "projl x")
         (auto simp: ExperimentTracker_end_run_def
            ExperimentTracker_validate_experiment_and_run_def bind_def
            validate_experiment_and_run_set remote_def et_consistent_def)
  qed
qed

lemma et_consistent_start_run:
  assumes "ExperimentTracker_start_run R run tb resume s = (res, s')" and "et_consistent s"
  shows "et_consistent s'"
proof (cases "et_experiment s")
  case None
  with assms show ?thesis
    by (simp add: ExperimentTracker_start_run_def raise_def)
next
  case (Some e)
  obtain x s1 where a: "end_active_run R s = (x, s1)"
    by (cases "end_active_run R s")
  have s1: "et_experiment s1 \<noteq> None"
  proof (cases "et_experiment_run s")
    case None
    with a Some show ?thesis by (simp add: end_active_run_def return_def)
  next
    case (Some r)
    obtain y w' where c: "ExperimentRun_end_run R r COMPLETE (world s) = (y, w')"
      by (cases "ExperimentRun_end_run R r COMPLETE (world s)")
    show ?thesis
      using a Some \<open>et_experiment s = Some e\<close> c
      by (cases y; cases "projl y")
         (auto simp: end_active_run_def ExperimentTracker_end_run_def
            ExperimentTracker_validate_experiment_and_run_def bind_def
            validate_experiment_and_run_set remote_def)
  qed
  have c1: "et_consistent s1"
    using s1 by (simp add: et_consistent_def)
  show ?thesis
    using assms(1) Some a s1 c1
    by (auto simp: ExperimentTracker_start_run_def bind_def remote_def modify_def return_def
          et_consistent_def split: prod.splits sum.splits if_splits)
qed

lemma et_consistent_log:
  "ExperimentTracker_log_params R params s = (res, s') \<Longrightarrow> et_consistent s \<Longrightarrow> et_consistent s'"
  "ExperimentTracker_log_metrics R metrics s = (res', s'') \<Longrightarrow> et_consistent s \<Longrightarrow> et_consistent s''"
  by (auto simp: ExperimentTracker_log_params_def ExperimentTracker_log_metrics_def
        ExperimentTracker_validate_experiment_and_run_def validate_experiment_and_run_def
        bind_def remote_def raise_def return_def et_consistent_def
        split: prod.splits sum.splits if_splits option.splits)

lemma et_consistent_active:
  "et_consistent s \<Longrightarrow> et_experiment_run s = Some r \<Longrightarrow> \<exists>e. et_experiment s = Some e"
  by (auto simp: et_consistent_def)

lemma ms_consistent_init: "ms_consistent (metadata_service_init w)"
  by (simp add: ms_consistent_def metadata_service_init_def)

lemma ms_consistent_set_experiment:
  "MetadataService_set_experiment K R nm d s = (res, s') \<Longrightarrow> ms_consistent s
     \<Longrightarrow> ms_consistent s'"
  by (auto simp: MetadataService_set_experiment_def MetadataService_reset_def bind_def
        modify_def remote_def return_def raise_def ms_consistent_def
        split: prod.splits sum.splits if_splits)

lemma ms_consistent_start_run:
  "MetadataService_start_run K R run s = (res, s') \<Longrightarrow> ms_consistent s \<Longrightarrow> ms_consistent s'"
  by (auto simp: MetadataService_start_run_def bind_def modify_def remote_def return_def
        raise_def ms_consistent_def
        split: prod.splits sum.splits if_splits option.splits)

lemma ms_consistent_log:
  "MetadataService_log_params K R params s = (res, s') \<Longrightarrow> ms_consistent s \<Longrightarrow> ms_consistent s'"
  "MetadataService_log_metrics K R metrics s = (res', s'') \<Longrightarrow> ms_consistent s
     \<Longrightarrow> ms_consistent s''"
  by (auto simp: MetadataService_log_params_def MetadataService_log_metrics_def
        MetadataService_validate_experiment_and_run_def validate_experiment_and_run_def
        bind_def remote_def raise_def return_def ms_consistent_def
        split: prod.splits sum.splits if_splits option.splits)

lemma ms_consistent_active:
  "ms_consistent s \<Longrightarrow> ms_run s = Some r \<Longrightarrow> \<exists>e. ms_experiment s = Some e"
  by (auto simp: ms_consistent_def)

end
